theory Spec2Isabelle
  imports Complex_Main "HOL-Library.Multiset" "HOL-Library.AList"
begin

section \<open>Python values and exceptions\<close>

text \<open>
  The signal pipeline of \<^verbatim>\<open>analysis/signal_generator.py\<close> and
  \<^verbatim>\<open>data_acquisition/parse_twitter_trends.py\<close> works on dictionaries whose
  values are typed \<^verbatim>\<open>Any\<close>. A value is a float (\<open>PNum\<close>), an int (\<open>PInt\<close>), a string,
  \<^verbatim>\<open>None\<close> or a dictionary (an association list, read with \<open>map_of\<close>).

  Python floats are modelled as real numbers: arithmetic is exact, there is no rounding,
  no infinity and no NaN. Python ints are unbounded; where the code converts one to a
  float or hands one to numpy, the conversion fails beyond the range of the target type,
  and that failure is a branch of the model. \<^verbatim>\<open>np.log1p x\<close> is \<open>ln (1 + x)\<close>, which is
  the value numpy computes only for \<open>x > -1\<close>; a quotient is the value numpy computes only
  for a denominator other than zero. The theorems below state these side conditions.
\<close>

datatype pyval =
    PNum real
  | PInt int
  | PStr string
  | PNone
  | PDict "(string \<times> pyval) list"

datatype py_error = AttributeError | KeyError | TypeError | ZeroDivisionError | OverflowError

text \<open>\<^verbatim>\<open>d.get(k, default)\<close>: only a dictionary has the method.\<close>

definition py_get :: "pyval \<Rightarrow> string \<Rightarrow> pyval \<Rightarrow> py_error + pyval" where
  "py_get d k dflt =
     (case d of
        PDict kvs \<Rightarrow> Inr (case map_of kvs k of None \<Rightarrow> dflt | Some v \<Rightarrow> v)
      | _ \<Rightarrow> Inl AttributeError)"

text \<open>\<^verbatim>\<open>d[k]\<close> with a string key: a missing key raises KeyError, a value that is
  not a dictionary raises TypeError.\<close>

definition py_subscript :: "pyval \<Rightarrow> string \<Rightarrow> py_error + pyval" where
  "py_subscript d k =
     (case d of
        PDict kvs \<Rightarrow> (case map_of kvs k of None \<Rightarrow> Inl KeyError | Some v \<Rightarrow> Inr v)
      | _ \<Rightarrow> Inl TypeError)"

text \<open>Sequencing under \<^verbatim>\<open>try\<close>: the first exception ends the block.\<close>

fun py_bind :: "py_error + 'a \<Rightarrow> ('a \<Rightarrow> py_error + 'b) \<Rightarrow> py_error + 'b" where
  "py_bind (Inl e) f = Inl e"
| "py_bind (Inr v) f = f v"

text \<open>The conversion of a number to a float, as in \<^verbatim>\<open>x * 0.5\<close> or in \<^verbatim>\<open>i - x\<close> with
  a float \<^verbatim>\<open>x\<close>: an int whose nearest double is beyond the largest one, that is an int
  of magnitude \<open>2^1024 - 2^970\<close> or more, raises OverflowError; a value that is not a
  number raises TypeError.\<close>

definition float_int_limit :: int where
  "float_int_limit = 2 ^ 1024 - 2 ^ 970"

definition py_float :: "pyval \<Rightarrow> py_error + real" where
  "py_float v =
     (case v of
        PNum x \<Rightarrow> Inr x
      | PInt k \<Rightarrow> if \<bar>k\<bar> \<ge> float_int_limit then Inl OverflowError else Inr (real_of_int k)
      | _ \<Rightarrow> Inl TypeError)"

text \<open>\<^verbatim>\<open>a - b\<close>: two ints give an int, exactly; a float and an int give a float, after
  the conversion of the int.\<close>

fun py_sub :: "pyval \<Rightarrow> pyval \<Rightarrow> py_error + pyval" where
  "py_sub (PInt m) (PInt n) = Inr (PInt (m - n))"
| "py_sub (PNum x) (PNum y) = Inr (PNum (x - y))"
| "py_sub (PNum x) (PInt n) = py_bind (py_float (PInt n)) (\<lambda>y. Inr (PNum (x - y)))"
| "py_sub (PInt m) (PNum y) = py_bind (py_float (PInt m)) (\<lambda>x. Inr (PNum (x - y)))"
| "py_sub a b = Inl TypeError"

text \<open>\<^verbatim>\<open>x > 0\<close>: the comparison of a number with an int is exact and does not raise.\<close>

definition py_gt_zero :: "pyval \<Rightarrow> py_error + bool" where
  "py_gt_zero v =
     (case v of
        PNum x \<Rightarrow> Inr (x > 0)
      | PInt k \<Rightarrow> Inr (k > 0)
      | _ \<Rightarrow> Inl TypeError)"

text \<open>\<^verbatim>\<open>max(0, x)\<close> returns \<^verbatim>\<open>x\<close> when \<^verbatim>\<open>x > 0\<close> and the int \<^verbatim>\<open>0\<close> otherwise.\<close>

definition py_max_zero :: "pyval \<Rightarrow> py_error + pyval" where
  "py_max_zero v =
     py_bind (py_gt_zero v) (\<lambda>positive. Inr (if positive then v else PInt 0))"

definition log1p :: "real \<Rightarrow> real" where
  "log1p x = ln (1 + x)"

text \<open>\<^verbatim>\<open>np.log1p(v)\<close> on a Python value: a float is taken as it is; an int is converted
  to a 64-bit integer, signed or unsigned, and an int outside \<open>[-2^63, 2^64)\<close> becomes an
  object for which the function has no loop, which raises TypeError, as does a value that
  is not a number.\<close>

definition np_log1p :: "pyval \<Rightarrow> py_error + real" where
  "np_log1p v =
     (case v of
        PNum x \<Rightarrow> Inr (log1p x)
      | PInt k \<Rightarrow> if - (2 ^ 63) \<le> k \<and> k < 2 ^ 64 then Inr (log1p (real_of_int k))
                  else Inl TypeError
      | _ \<Rightarrow> Inl TypeError)"

section \<open>Signal types and thresholds\<close>

datatype SignalType = STRONG_BUY | BUY | NEUTRAL | SELL | STRONG_SELL

text \<open>The dataclass \<^verbatim>\<open>SignalThresholds\<close>. Its fields are annotated but not checked,
  so each holds an arbitrary value; the five cut points carry the suffix \<open>_THRESHOLD\<close>
  to keep them apart from the members of \<open>SignalType\<close>. The defaults are floats, but for
  \<^verbatim>\<open>MIN_MENTIONS\<close>, the int 5.\<close>

record SignalThresholds =
  STRONG_BUY_THRESHOLD :: pyval
  BUY_THRESHOLD :: pyval
  NEUTRAL_THRESHOLD :: pyval
  SELL_THRESHOLD :: pyval
  STRONG_SELL_THRESHOLD :: pyval
  MIN_MENTIONS :: pyval
  MIN_ENGAGEMENT :: pyval

definition default_thresholds :: SignalThresholds where
  "default_thresholds =
     \<lparr> STRONG_BUY_THRESHOLD = PNum 0.8,
       BUY_THRESHOLD = PNum 0.5,
       NEUTRAL_THRESHOLD = PNum 0.0,
       SELL_THRESHOLD = PNum (-0.5),
       STRONG_SELL_THRESHOLD = PNum (-0.8),
       MIN_MENTIONS = PInt 5,
       MIN_ENGAGEMENT = PNum 100.0 \<rparr>"

section \<open>The three component scores\<close>

text \<open>The body of the \<^verbatim>\<open>try\<close> block of \<^verbatim>\<open>_calculate_sentiment_score\<close>.\<close>

definition calculate_sentiment_score_try :: "pyval \<Rightarrow> py_error + real" where
  "calculate_sentiment_score_try sentiment_data =
     py_bind (py_get sentiment_data ''compound'' (PInt 0)) (\<lambda>compound_score.
     py_bind (py_get sentiment_data ''pos'' (PInt 0)) (\<lambda>pos_score.
     py_bind (py_get sentiment_data ''neg'' (PInt 0)) (\<lambda>neg_score.
     py_bind (py_float compound_score) (\<lambda>compound_float.
     py_bind (py_sub pos_score neg_score) (\<lambda>difference.
     py_bind (py_float difference) (\<lambda>difference_float.
     py_bind (py_gt_zero compound_score) (\<lambda>positive.
       (let weighted_score =
              compound_float * 0.5 +
              difference_float * 0.3 +
              (if positive then 1 else -1) * 0.2
        in Inr (max (-1.0) (min 1.0 weighted_score))))))))))"

text \<open>\<^verbatim>\<open>except Exception: return 0.0\<close>\<close>

definition calculate_sentiment_score :: "pyval \<Rightarrow> real" where
  "calculate_sentiment_score sentiment_data =
     (case calculate_sentiment_score_try sentiment_data of Inl e \<Rightarrow> 0.0 | Inr v \<Rightarrow> v)"

text \<open>The bodies of \<^verbatim>\<open>_calculate_engagement_impact\<close> and
  \<^verbatim>\<open>_calculate_mention_confidence\<close>. The quotient of two numpy floats does not raise
  for a zero divisor.\<close>

definition calculate_engagement_impact_try :: "SignalThresholds \<Rightarrow> pyval \<Rightarrow> py_error + real" where
  "calculate_engagement_impact_try self engagement_score =
     py_bind (py_max_zero engagement_score) (\<lambda>clipped.
     py_bind (np_log1p clipped) (\<lambda>numerator.
     py_bind (np_log1p (MIN_ENGAGEMENT self)) (\<lambda>denominator.
       (let normalized = numerator / denominator
        in Inr (min 1.0 normalized)))))"

definition calculate_engagement_impact :: "SignalThresholds \<Rightarrow> pyval \<Rightarrow> real" where
  "calculate_engagement_impact self engagement_score =
     (case calculate_engagement_impact_try self engagement_score of Inl e \<Rightarrow> 0.0 | Inr v \<Rightarrow> v)"

definition calculate_mention_confidence_try :: "SignalThresholds \<Rightarrow> pyval \<Rightarrow> py_error + real" where
  "calculate_mention_confidence_try self mention_count =
     py_bind (np_log1p mention_count) (\<lambda>numerator.
     py_bind (np_log1p (MIN_MENTIONS self)) (\<lambda>denominator.
       (let base_confidence = numerator / denominator
        in Inr (min 1.0 (max 0.0 base_confidence)))))"

definition calculate_mention_confidence :: "SignalThresholds \<Rightarrow> pyval \<Rightarrow> real" where
  "calculate_mention_confidence self mention_count =
     (case calculate_mention_confidence_try self mention_count of Inl e \<Rightarrow> 0.0 | Inr v \<Rightarrow> v)"

section \<open>generate_signal\<close>

record metrics =
  sentiment_score :: real
  engagement_impact :: real
  mention_count :: pyval
  raw_sentiment :: pyval

text \<open>The dictionary \<^verbatim>\<open>generate_signal\<close> returns, without its wall-clock
  \<^verbatim>\<open>timestamp\<close>; \<open>signal_type\<close> holds the enum member whose \<^verbatim>\<open>.value\<close> the code
  stores.\<close>

record signal =
  coin :: pyval
  signal_type :: SignalType
  signal_strength :: real
  confidence :: real
  metrics :: metrics

text \<open>\<^verbatim>\<open>signal_strength >= threshold\<close> and \<^verbatim>\<open>signal_strength <= threshold\<close>: the
  comparison of a float with an int is exact and does not raise; a threshold that is not
  a number raises TypeError.\<close>

definition py_ge :: "real \<Rightarrow> pyval \<Rightarrow> py_error + bool" where
  "py_ge x v =
     (case v of
        PNum y \<Rightarrow> Inr (x \<ge> y)
      | PInt k \<Rightarrow> Inr (x \<ge> real_of_int k)
      | _ \<Rightarrow> Inl TypeError)"

definition py_le :: "real \<Rightarrow> pyval \<Rightarrow> py_error + bool" where
  "py_le x v =
     (case v of
        PNum y \<Rightarrow> Inr (x \<le> y)
      | PInt k \<Rightarrow> Inr (x \<le> real_of_int k)
      | _ \<Rightarrow> Inl TypeError)"

text \<open>The \<^verbatim>\<open>if\<close>/\<^verbatim>\<open>elif\<close> chain of \<^verbatim>\<open>generate_signal\<close> (lines 97 to 106): a
  comparison is evaluated only when every earlier one was false.\<close>

definition determine_signal_type :: "SignalThresholds \<Rightarrow> real \<Rightarrow> py_error + SignalType" where
  "determine_signal_type self strength =
     py_bind (py_ge strength (STRONG_BUY_THRESHOLD self)) (\<lambda>b1.
       if b1 then Inr STRONG_BUY else
     py_bind (py_ge strength (BUY_THRESHOLD self)) (\<lambda>b2.
       if b2 then Inr BUY else
     py_bind (py_le strength (STRONG_SELL_THRESHOLD self)) (\<lambda>b3.
       if b3 then Inr STRONG_SELL else
     py_bind (py_le strength (SELL_THRESHOLD self)) (\<lambda>b4.
       if b4 then Inr SELL else Inr NEUTRAL))))"

text \<open>The body of the \<^verbatim>\<open>try\<close> block of \<^verbatim>\<open>generate_signal\<close>.\<close>

definition generate_signal_try ::
  "SignalThresholds \<Rightarrow> pyval \<Rightarrow> pyval \<Rightarrow> pyval \<Rightarrow> pyval \<Rightarrow> py_error + signal" where
  "generate_signal_try self coin_v sentiment_data mention_count_v engagement_score =
     (let sentiment_score_v = calculate_sentiment_score sentiment_data;
          engagement_impact_v = calculate_engagement_impact self engagement_score;
          confidence_v = calculate_mention_confidence self mention_count_v;
          strength = sentiment_score_v * 0.5 + engagement_impact_v * 0.3 + confidence_v * 0.2
      in py_bind (determine_signal_type self strength) (\<lambda>ty.
           Inr \<lparr> coin = coin_v,
                 signal_type = ty,
                 signal_strength = strength,
                 confidence = confidence_v,
                 metrics = \<lparr> sentiment_score = sentiment_score_v,
                             engagement_impact = engagement_impact_v,
                             mention_count = mention_count_v,
                             raw_sentiment = sentiment_data \<rparr> \<rparr>))"

text \<open>\<^verbatim>\<open>except Exception: return None\<close>\<close>

definition generate_signal ::
  "SignalThresholds \<Rightarrow> pyval \<Rightarrow> pyval \<Rightarrow> pyval \<Rightarrow> pyval \<Rightarrow> signal option" where
  "generate_signal self coin_v sentiment_data mention_count_v engagement_score =
     (case generate_signal_try self coin_v sentiment_data mention_count_v engagement_score of
        Inl e \<Rightarrow> None
      | Inr s \<Rightarrow> Some s)"

section \<open>generate_signals_batch\<close>

text \<open>One pass of the loop body under \<^verbatim>\<open>try\<close>: the four subscripts are evaluated in
  the order of the keyword arguments, then \<^verbatim>\<open>generate_signal\<close> is called.\<close>

definition batch_item_try :: "SignalThresholds \<Rightarrow> pyval \<Rightarrow> py_error + signal option" where
  "batch_item_try self data =
     py_bind (py_subscript data ''coin'') (\<lambda>coin_v.
     py_bind (py_subscript data ''sentiment'') (\<lambda>sentiment_data.
     py_bind (py_subscript data ''mentions'') (\<lambda>mention_count_v.
     py_bind (py_subscript data ''engagement'') (\<lambda>engagement_score.
       Inr (generate_signal self coin_v sentiment_data mention_count_v engagement_score)))))"

text \<open>The \<^verbatim>\<open>for\<close> loop: \<^verbatim>\<open>if signal: signals.append(signal)\<close> keeps a returned
  dictionary (never empty, so truthy) and drops \<^verbatim>\<open>None\<close>;
  \<^verbatim>\<open>except Exception: continue\<close> drops the item.\<close>

fun batch_loop :: "SignalThresholds \<Rightarrow> signal list \<Rightarrow> pyval list \<Rightarrow> signal list" where
  "batch_loop self signals [] = signals"
| "batch_loop self signals (data # coin_data) =
     batch_loop self
       (case batch_item_try self data of
          Inl e \<Rightarrow> signals
        | Inr None \<Rightarrow> signals
        | Inr (Some sig) \<Rightarrow> signals @ [sig])
       coin_data"

text \<open>What one pass of the loop appends to \<^verbatim>\<open>signals\<close>.\<close>

definition kept_signals :: "SignalThresholds \<Rightarrow> pyval \<Rightarrow> signal list" where
  "kept_signals self data =
     (case batch_item_try self data of
        Inl e \<Rightarrow> []
      | Inr None \<Rightarrow> []
      | Inr (Some sig) \<Rightarrow> [sig])"

text \<open>\<^verbatim>\<open>sorted(xs, key=key, reverse=True)\<close>: the list is reversed, sorted stably in
  ascending order of the key and reversed again, so that equal keys keep their order.\<close>

definition sorted_reverse :: "('a \<Rightarrow> real) \<Rightarrow> 'a list \<Rightarrow> 'a list" where
  "sorted_reverse key xs = rev (sort_key key (rev xs))"

definition generate_signals_batch :: "SignalThresholds \<Rightarrow> pyval list \<Rightarrow> signal list" where
  "generate_signals_batch self coin_data =
     sorted_reverse (\<lambda>x. \<bar>signal_strength x\<bar>) (batch_loop self [] coin_data)"

section \<open>process_tweets: aggregation and signal generation\<close>

text \<open>An element of the list \<^verbatim>\<open>results\<close> that \<^verbatim>\<open>process_tweets\<close> builds per tweet
  (lines 88 to 107), with the fields the aggregation reads:
  \<^verbatim>\<open>r['sentiment']['compound']\<close>, \<^verbatim>\<open>r['crypto_mentions']\<close> and
  \<^verbatim>\<open>r['engagement_score']\<close>. Loading the file, extracting tweets and the sentiment
  analyser are outside the model.\<close>

record tweet_result =
  result_compound :: real
  result_crypto_mentions :: "string list"
  result_engagement_score :: real

record coin_stats =
  mentions :: nat
  avg_sentiment :: real
  total_engagement :: real

record aggregated_data =
  total_tweets :: nat
  average_sentiment :: real
  crypto_mentions :: "(string \<times> coin_stats) list"
  trading_signals :: "signal list"

text \<open>Lines 120 to 132 for one coin of one result. The dictionary keeps insertion
  order: \<open>AList.update\<close> replaces the entry of a known key in place and appends a new
  key at the end.\<close>

definition count_mention :: "tweet_result \<Rightarrow> (string \<times> coin_stats) list \<Rightarrow> string \<Rightarrow> (string \<times> coin_stats) list" where
  "count_mention result cm coin_name =
     (let coin_data = (case map_of cm coin_name of
                         None \<Rightarrow> \<lparr> mentions = 0, avg_sentiment = 0.0, total_engagement = 0.0 \<rparr>
                       | Some d \<Rightarrow> d)
      in AList.update coin_name
           \<lparr> mentions = mentions coin_data + 1,
             avg_sentiment = avg_sentiment coin_data + result_compound result,
             total_engagement = total_engagement coin_data + result_engagement_score result \<rparr>
           cm)"

definition count_mentions :: "tweet_result list \<Rightarrow> (string \<times> coin_stats) list" where
  "count_mentions results =
     foldl (\<lambda>cm result. foldl (count_mention result) cm (result_crypto_mentions result)) [] results"

text \<open>Lines 135 to 137. The division is guarded by \<^verbatim>\<open>if coin_data['mentions'] > 0\<close>, so
  its divisor is never zero.\<close>

definition calculate_averages :: "(string \<times> coin_stats) list \<Rightarrow> (string \<times> coin_stats) list" where
  "calculate_averages cm =
     map (\<lambda>(coin_name, coin_data).
            (coin_name,
             if mentions coin_data > 0
             then coin_data\<lparr> avg_sentiment := avg_sentiment coin_data / real (mentions coin_data) \<rparr>
             else coin_data)) cm"

text \<open>\<^verbatim>\<open>max(0, x)\<close> for a float \<^verbatim>\<open>x\<close>.\<close>

definition max_zero_float :: "real \<Rightarrow> pyval" where
  "max_zero_float x = (if x > 0 then PNum x else PInt 0)"

text \<open>Lines 141 to 154: the input of the batch, one dictionary per coin with at least
  five mentions. The mention count is an int, the averages and totals are floats.\<close>

definition coin_entry :: "string \<times> coin_stats \<Rightarrow> pyval" where
  "coin_entry = (\<lambda>(coin_name, data).
     PDict [(''coin'', PStr coin_name),
            (''sentiment'',
               PDict [(''compound'', PNum (avg_sentiment data)),
                      (''pos'', max_zero_float (avg_sentiment data)),
                      (''neg'', max_zero_float (- avg_sentiment data)),
                      (''neu'', PNum (1 - \<bar>avg_sentiment data\<bar>))]),
            (''mentions'', PInt (int (mentions data))),
            (''engagement'', PNum (total_engagement data))])"

definition coin_data_list :: "(string \<times> coin_stats) list \<Rightarrow> pyval list" where
  "coin_data_list cm = map coin_entry (filter (\<lambda>(coin_name, data). mentions data \<ge> 5) cm)"

text \<open>\<^verbatim>\<open>a / b\<close> on Python numbers raises ZeroDivisionError for a zero divisor.\<close>

definition py_truediv :: "real \<Rightarrow> real \<Rightarrow> py_error + real" where
  "py_truediv a b = (if b = 0 then Inl ZeroDivisionError else Inr (a / b))"

text \<open>Lines 111 to 163 of \<^verbatim>\<open>process_tweets\<close>, from the list \<^verbatim>\<open>results\<close>, without
  the wall-clock \<^verbatim>\<open>timestamp\<close>. The quotient \<^verbatim>\<open>sum(...) / len(results)\<close> is evaluated
  first; an exception leaves the block, and the handler of \<^verbatim>\<open>process_tweets\<close> logs and
  re-raises it. The parser's generator is \<^verbatim>\<open>SignalGenerator()\<close>, with the default
  thresholds.\<close>

definition process_tweets :: "tweet_result list \<Rightarrow> py_error + aggregated_data" where
  "process_tweets results =
     py_bind (py_truediv (sum_list (map result_compound results)) (real (length results)))
       (\<lambda>average.
          (let cm = calculate_averages (count_mentions results)
           in Inr \<lparr> total_tweets = length results,
                    average_sentiment = average,
                    crypto_mentions = cm,
                    trading_signals =
                      generate_signals_batch default_thresholds (coin_data_list cm) \<rparr>))"

section \<open>Numbers and the domain of the real-valued model\<close>

text \<open>A number together with its value.\<close>

definition number_value :: "pyval \<Rightarrow> real option" where
  "number_value v = (case v of PNum x \<Rightarrow> Some x | PInt k \<Rightarrow> Some (real_of_int k) | _ \<Rightarrow> None)"

text \<open>A float, or an int that converts to a float exactly (magnitude at most \<open>2^53\<close>),
  with its value.\<close>

definition exact_number :: "pyval \<Rightarrow> real \<Rightarrow> bool" where
  "exact_number v x =
     (case v of PNum y \<Rightarrow> x = y | PInt k \<Rightarrow> x = real_of_int k \<and> \<bar>k\<bar> \<le> 2 ^ 53 | _ \<Rightarrow> False)"

text \<open>A number that \<^verbatim>\<open>np.log1p\<close> accepts, with its value: a float, or an int in
  \<open>[-2^63, 2^64)\<close>.\<close>

definition log1p_operand :: "pyval \<Rightarrow> real \<Rightarrow> bool" where
  "log1p_operand v x =
     (case v of
        PNum y \<Rightarrow> x = y
      | PInt k \<Rightarrow> x = real_of_int k \<and> - (2 ^ 63) \<le> k \<and> k < 2 ^ 64
      | _ \<Rightarrow> False)"

text \<open>An engagement score for which \<^verbatim>\<open>np.log1p(max(0, score))\<close> does not raise, with
  its value: a float, or an int below \<open>2^64\<close>.\<close>

definition engagement_operand :: "pyval \<Rightarrow> real \<Rightarrow> bool" where
  "engagement_operand v x =
     (case v of PNum y \<Rightarrow> x = y | PInt k \<Rightarrow> x = real_of_int k \<and> k < 2 ^ 64 | _ \<Rightarrow> False)"

text \<open>A threshold that is a positive number.\<close>

definition positive_number :: "pyval \<Rightarrow> bool" where
  "positive_number v = (case v of PNum x \<Rightarrow> 0 < x | PInt k \<Rightarrow> 0 < k | _ \<Rightarrow> False)"

text \<open>A mention count handed to \<^verbatim>\<open>np.log1p\<close>: for a float at or below \<open>-1\<close> and for an
  int from \<open>-2^63\<close> to \<open>-1\<close> numpy returns minus infinity or NaN, which the real-valued model
  does not represent; any other value either has a real logarithm or raises, and both are
  covered.\<close>

definition log1p_real_or_raises :: "pyval \<Rightarrow> bool" where
  "log1p_real_or_raises v =
     (case v of
        PNum x \<Rightarrow> - 1 < x
      | PInt k \<Rightarrow> 0 \<le> k \<or> k < - (2 ^ 63)
      | _ \<Rightarrow> True)"

section \<open>The sentiment score\<close>

lemma py_bind_Inr_iff: "py_bind m f = Inr v \<longleftrightarrow> (\<exists>a. m = Inr a \<and> f a = Inr v)"
  by (cases m) simp_all

lemma float_int_limit_large: "2 ^ 54 < float_int_limit"
  by (simp add: float_int_limit_def)

lemma below_float_int_limit: "\<bar>k\<bar> \<le> 2 ^ 54 \<Longrightarrow> \<not> float_int_limit \<le> \<bar>k\<bar>"
  using float_int_limit_large by linarith

lemma py_float_small_int: "\<bar>k\<bar> \<le> 2 ^ 54 \<Longrightarrow> py_float (PInt k) = Inr (real_of_int k)"
  by (simp add: py_float_def below_float_int_limit)

lemma py_float_exact: "exact_number v x \<Longrightarrow> py_float v = Inr x"
proof (cases v)
  case (PInt k)
  assume "exact_number v x"
  then have "\<bar>k\<bar> \<le> 2 ^ 54" "x = real_of_int k"
    using PInt by (auto simp: exact_number_def)
  then show ?thesis using PInt by (simp only: py_float_small_int)
qed (simp_all add: exact_number_def py_float_def)

lemma py_gt_zero_exact: "exact_number v x \<Longrightarrow> py_gt_zero v = Inr (x > 0)"
  by (cases v) (simp_all add: exact_number_def py_gt_zero_def)

lemma py_sub_exact:
  assumes "exact_number a x" and "exact_number b y"
  shows "\<exists>d. py_sub a b = Inr d \<and> py_float d = Inr (x - y)"
proof -
  note fa = py_float_exact[OF assms(1)] and fb = py_float_exact[OF assms(2)]
  show ?thesis
  proof (cases a)
    case (PNum x')
    then show ?thesis using assms fb
      by (cases b) (auto simp: exact_number_def py_float_def)
  next
    case (PInt m)
    show ?thesis
    proof (cases b)
      case (PInt n)
      have "\<bar>m - n\<bar> \<le> 2 ^ 54"
        using assms \<open>a = PInt m\<close> PInt by (auto simp: exact_number_def)
      then have "py_float (PInt (m - n)) = Inr (real_of_int (m - n))"
        by (rule py_float_small_int)
      then show ?thesis
        using assms \<open>a = PInt m\<close> PInt by (simp add: exact_number_def)
    next
      case (PNum y')
      then show ?thesis using assms \<open>a = PInt m\<close> fa
        by (auto simp: exact_number_def py_float_def)
    qed (use assms in \<open>simp_all add: exact_number_def\<close>)
  qed (use assms in \<open>simp_all add: exact_number_def\<close>)
qed

lemma sentiment_try_numeric:
  assumes "py_get sd ''compound'' (PInt 0) = Inr cv"
      and "py_get sd ''pos'' (PInt 0) = Inr pv"
      and "py_get sd ''neg'' (PInt 0) = Inr nv"
      and "exact_number cv c" and "exact_number pv p" and "exact_number nv n"
  shows "calculate_sentiment_score_try sd =
           Inr (max (-1) (min 1 (c * 0.5 + (p - n) * 0.3 + (if c > 0 then 1 else -1) * 0.2)))"
proof -
  obtain d where d: "py_sub pv nv = Inr d" "py_float d = Inr (p - n)"
    using py_sub_exact[OF assms(5,6)] by blast
  show ?thesis
    using assms(1-3) d py_float_exact[OF assms(4)] py_gt_zero_exact[OF assms(4)]
    by (simp add: calculate_sentiment_score_try_def)
qed

lemma sentiment_try_bounds:
  "calculate_sentiment_score_try sd = Inr v \<Longrightarrow> - 1 \<le> v \<and> v \<le> 1"
  unfolding calculate_sentiment_score_try_def
  by (auto simp: py_bind_Inr_iff Let_def)

lemma sentiment_bounds:
  "- 1 \<le> calculate_sentiment_score sd \<and> calculate_sentiment_score sd \<le> 1"
  using sentiment_try_bounds[of sd]
  by (cases "calculate_sentiment_score_try sd") (simp_all add: calculate_sentiment_score_def)

lemma sentiment_handler:
  "calculate_sentiment_score_try sd = Inl err \<Longrightarrow> calculate_sentiment_score sd = 0"
  by (simp add: calculate_sentiment_score_def)

text \<open>
  Claim C1. Whenever the fields \<^verbatim>\<open>compound\<close>, \<^verbatim>\<open>pos\<close> and \<^verbatim>\<open>neg\<close>, read with the
  default 0 for a missing field, are floats, or ints of magnitude at most \<open>2^53\<close>, with the
  values \<open>c\<close>, \<open>p\<close> and \<open>n\<close>, the sentiment score is
  \<open>c * 0.5 + (p - n) * 0.3 + (if c > 0 then 1 else -1) * 0.2\<close> clamped to \<open>[-1, 1]\<close>. At
  \<open>c = 0\<close> the third term is \<open>-0.2\<close>. The score lies in \<open>[-1, 1]\<close> for every input; it is
  exactly 1 at compound 1, pos 1, neg 0 and exactly \<open>-1\<close> at compound \<open>-1\<close>, pos 0, neg 1,
  as floats and as ints; with every field missing it is \<open>-0.2\<close>. The ranges of the three
  fields are not needed.
\<close>

theorem sentiment_score_formula:
  "(\<forall>sd cv pv nv c p n.
      py_get sd ''compound'' (PInt 0) = Inr cv \<and> exact_number cv c \<and>
      py_get sd ''pos'' (PInt 0) = Inr pv \<and> exact_number pv p \<and>
      py_get sd ''neg'' (PInt 0) = Inr nv \<and> exact_number nv n \<longrightarrow>
      calculate_sentiment_score sd =
        max (-1) (min 1 (c * 0.5 + (p - n) * 0.3 + (if c > 0 then 1 else -1) * 0.2)) \<and>
      (c = 0 \<longrightarrow> calculate_sentiment_score sd = max (-1) (min 1 ((p - n) * 0.3 + (- 1) * 0.2))) \<and>
      - 1 \<le> calculate_sentiment_score sd \<and> calculate_sentiment_score sd \<le> 1) \<and>
   (\<forall>sd. - 1 \<le> calculate_sentiment_score sd \<and> calculate_sentiment_score sd \<le> 1) \<and>
   calculate_sentiment_score
     (PDict [(''compound'', PNum 1), (''pos'', PNum 1), (''neg'', PNum 0)]) = 1 \<and>
   calculate_sentiment_score
     (PDict [(''compound'', PNum (-1)), (''pos'', PNum 0), (''neg'', PNum 1)]) = - 1 \<and>
   calculate_sentiment_score
     (PDict [(''compound'', PInt 1), (''pos'', PInt 1), (''neg'', PInt 0)]) = 1 \<and>
   calculate_sentiment_score
     (PDict [(''compound'', PInt (-1)), (''pos'', PInt 0), (''neg'', PInt 1)]) = - 1 \<and>
   calculate_sentiment_score (PDict []) = - 0.2"
proof -
  have gen: "calculate_sentiment_score sd =
        max (-1) (min 1 (c * 0.5 + (p - n) * 0.3 + (if c > 0 then 1 else -1) * 0.2))"
    if "py_get sd ''compound'' (PInt 0) = Inr cv" "py_get sd ''pos'' (PInt 0) = Inr pv"
       "py_get sd ''neg'' (PInt 0) = Inr nv"
       "exact_number cv c" "exact_number pv p" "exact_number nv n" for sd cv pv nv c p n
    using sentiment_try_numeric[OF that] by (simp add: calculate_sentiment_score_def)
  have b1: "calculate_sentiment_score
      (PDict [(''compound'', PNum 1), (''pos'', PNum 1), (''neg'', PNum 0)]) = 1"
    by (subst gen[of _ "PNum 1" "PNum 1" "PNum 0" 1 1 0]) (simp_all add: py_get_def exact_number_def)
  have b2: "calculate_sentiment_score
      (PDict [(''compound'', PNum (-1)), (''pos'', PNum 0), (''neg'', PNum 1)]) = - 1"
    by (subst gen[of _ "PNum (-1)" "PNum 0" "PNum 1" "-1" 0 1]) (simp_all add: py_get_def exact_number_def)
  have b3: "calculate_sentiment_score
      (PDict [(''compound'', PInt 1), (''pos'', PInt 1), (''neg'', PInt 0)]) = 1"
    by (subst gen[of _ "PInt 1" "PInt 1" "PInt 0" 1 1 0]) (simp_all add: py_get_def exact_number_def)
  have b4: "calculate_sentiment_score
      (PDict [(''compound'', PInt (-1)), (''pos'', PInt 0), (''neg'', PInt 1)]) = - 1"
    by (subst gen[of _ "PInt (-1)" "PInt 0" "PInt 1" "-1" 0 1]) (simp_all add: py_get_def exact_number_def)
  have b5: "calculate_sentiment_score (PDict []) = - 0.2"
    by (subst gen[of _ "PInt 0" "PInt 0" "PInt 0" 0 0 0]) (simp_all add: py_get_def exact_number_def)
  have main: "calculate_sentiment_score sd =
        max (-1) (min 1 (c * 0.5 + (p - n) * 0.3 + (if c > 0 then 1 else -1) * 0.2)) \<and>
      (c = 0 \<longrightarrow> calculate_sentiment_score sd = max (-1) (min 1 ((p - n) * 0.3 + (- 1) * 0.2))) \<and>
      - 1 \<le> calculate_sentiment_score sd \<and> calculate_sentiment_score sd \<le> 1"
    if "py_get sd ''compound'' (PInt 0) = Inr cv \<and> exact_number cv c \<and>
      py_get sd ''pos'' (PInt 0) = Inr pv \<and> exact_number pv p \<and>
      py_get sd ''neg'' (PInt 0) = Inr nv \<and> exact_number nv n" for sd cv pv nv c p n
    using gen[of sd cv pv nv c p n] that sentiment_bounds[of sd] by auto
  show ?thesis
    using main sentiment_bounds b1 b2 b3 b4 b5 by (intro conjI allI impI) blast+
qed

theorem sentiment_score_formula_witness:
  "py_get (PDict [(''compound'', PInt 0), (''pos'', PNum 0.5)]) ''compound'' (PInt 0) = Inr (PInt 0) \<and>
   exact_number (PInt 0) 0 \<and>
   py_get (PDict [(''compound'', PInt 0), (''pos'', PNum 0.5)]) ''pos'' (PInt 0) = Inr (PNum 0.5) \<and>
   exact_number (PNum 0.5) 0.5 \<and>
   py_get (PDict [(''compound'', PInt 0), (''pos'', PNum 0.5)]) ''neg'' (PInt 0) = Inr (PInt 0) \<and>
   calculate_sentiment_score (PDict [(''compound'', PInt 0), (''pos'', PNum 0.5)]) = - 0.05"
proof -
  let ?sd = "PDict [(''compound'', PInt 0), (''pos'', PNum 0.5)]"
  have h: "py_get ?sd ''compound'' (PInt 0) = Inr (PInt 0) \<and> exact_number (PInt 0) 0 \<and>
           py_get ?sd ''pos'' (PInt 0) = Inr (PNum 0.5) \<and> exact_number (PNum 0.5) 0.5 \<and>
           py_get ?sd ''neg'' (PInt 0) = Inr (PInt 0) \<and> exact_number (PInt 0) 0"
    by (simp add: py_get_def exact_number_def)
  have "calculate_sentiment_score ?sd =
        max (-1) (min 1 (0 * 0.5 + (0.5 - 0) * 0.3 + (if (0::real) > 0 then 1 else -1) * 0.2))"
    by (rule sentiment_score_formula[THEN conjunct1, rule_format, THEN conjunct1, OF h])
  then show ?thesis using h by simp
qed

section \<open>Engagement impact and mention confidence\<close>

lemma log1p_zero: "log1p 0 = 0"
  by (simp add: log1p_def)

lemma log1p_pos: "0 < x \<Longrightarrow> 0 < log1p x"
  by (simp add: log1p_def)

lemma log1p_nonneg: "0 \<le> x \<Longrightarrow> 0 \<le> log1p x"
  by (simp add: log1p_def)

lemma log1p_mono: "0 \<le> x \<Longrightarrow> x \<le> y \<Longrightarrow> log1p x \<le> log1p y"
  by (simp add: log1p_def)

lemma np_log1p_operand: "log1p_operand v x \<Longrightarrow> np_log1p v = Inr (log1p x)"
  by (cases v) (simp_all add: log1p_operand_def np_log1p_def)

lemma np_log1p_large_int: "2 ^ 64 \<le> k \<Longrightarrow> np_log1p (PInt k) = Inl TypeError"
  by (simp add: np_log1p_def)

lemma max_zero_log1p:
  assumes "engagement_operand v x"
  shows "\<exists>w. py_max_zero v = Inr w \<and> np_log1p w = Inr (log1p (max 0 x))"
proof (cases v)
  case (PNum y)
  then show ?thesis using assms
    by (simp add: engagement_operand_def py_max_zero_def py_gt_zero_def np_log1p_def max_def)
next
  case (PInt k)
  then show ?thesis using assms
    by (simp add: engagement_operand_def py_max_zero_def py_gt_zero_def np_log1p_def max_def)
qed (use assms in \<open>simp_all add: engagement_operand_def\<close>)

lemma max_zero_log1p_nonneg:
  assumes "py_max_zero v = Inr w" and "np_log1p w = Inr num"
  shows "0 \<le> num"
  using assms
  by (cases v)
     (auto simp: py_max_zero_def py_gt_zero_def np_log1p_def log1p_nonneg split: if_splits)

lemma positive_log1p:
  assumes "positive_number v" and "np_log1p v = Inr den"
  shows "0 < den"
  using assms
  by (cases v) (auto simp: positive_number_def np_log1p_def log1p_pos split: if_splits)

lemma engagement_value:
  assumes "log1p_operand (MIN_ENGAGEMENT self) E" and "engagement_operand v x"
  shows "calculate_engagement_impact self v = min 1 (log1p (max 0 x) / log1p E)"
proof -
  obtain w where "py_max_zero v = Inr w" "np_log1p w = Inr (log1p (max 0 x))"
    using max_zero_log1p[OF assms(2)] by blast
  then show ?thesis
    using np_log1p_operand[OF assms(1)]
    by (simp add: calculate_engagement_impact_def calculate_engagement_impact_try_def)
qed

lemma confidence_value:
  assumes "log1p_operand (MIN_MENTIONS self) M" and "log1p_operand v x"
  shows "calculate_mention_confidence self v = min 1 (max 0 (log1p x / log1p M))"
  using np_log1p_operand[OF assms(1)] np_log1p_operand[OF assms(2)]
  by (simp add: calculate_mention_confidence_def calculate_mention_confidence_try_def)

lemma engagement_large_int:
  "2 ^ 64 \<le> k \<Longrightarrow> calculate_engagement_impact self (PInt k) = 0"
proof -
  assume k: "(2::int) ^ 64 \<le> k"
  have "(0::int) < 2 ^ 64" by simp
  with k have "0 < k" by linarith
  then have "py_max_zero (PInt k) = Inr (PInt k)"
    by (simp add: py_max_zero_def py_gt_zero_def)
  then show ?thesis
    using np_log1p_large_int[OF k]
    by (simp add: calculate_engagement_impact_def calculate_engagement_impact_try_def)
qed

lemma confidence_large_int:
  "2 ^ 64 \<le> k \<Longrightarrow> calculate_mention_confidence self (PInt k) = 0"
  using np_log1p_large_int[of k]
  by (simp add: calculate_mention_confidence_def calculate_mention_confidence_try_def)

lemma engagement_upper: "calculate_engagement_impact self e \<le> 1"
  by (cases "calculate_engagement_impact_try self e")
     (auto simp: calculate_engagement_impact_def calculate_engagement_impact_try_def
        py_bind_Inr_iff)

lemma confidence_bounds:
  "0 \<le> calculate_mention_confidence self m \<and> calculate_mention_confidence self m \<le> 1"
  by (cases "calculate_mention_confidence_try self m")
     (auto simp: calculate_mention_confidence_def calculate_mention_confidence_try_def
        py_bind_Inr_iff)

lemma engagement_lower:
  assumes "positive_number (MIN_ENGAGEMENT self)"
  shows "0 \<le> calculate_engagement_impact self e"
proof (cases "calculate_engagement_impact_try self e")
  case (Inl err)
  then show ?thesis by (simp add: calculate_engagement_impact_def)
next
  case (Inr v)
  then obtain w num den where w: "py_max_zero e = Inr w" "np_log1p w = Inr num"
      "np_log1p (MIN_ENGAGEMENT self) = Inr den" "v = min 1 (num / den)"
    by (auto simp: calculate_engagement_impact_try_def py_bind_Inr_iff)
  have "0 \<le> num / den"
    using max_zero_log1p_nonneg[OF w(1,2)] positive_log1p[OF assms w(3)] by simp
  then show ?thesis using Inr w(4) by (simp add: calculate_engagement_impact_def)
qed

lemma engagement_mono:
  assumes "log1p_operand (MIN_ENGAGEMENT self) E" and "0 < E"
      and "engagement_operand v x" and "engagement_operand w y" and "x \<le> y"
  shows "calculate_engagement_impact self v \<le> calculate_engagement_impact self w"
proof -
  have "log1p (max 0 x) \<le> log1p (max 0 y)"
    using assms(5) by (intro log1p_mono) auto
  then have "log1p (max 0 x) / log1p E \<le> log1p (max 0 y) / log1p E"
    using log1p_pos[OF assms(2)] by (simp add: divide_right_mono)
  then show ?thesis
    by (simp add: engagement_value[OF assms(1,3)] engagement_value[OF assms(1,4)] min_le_iff_disj)
qed

lemma confidence_mono:
  assumes "log1p_operand (MIN_MENTIONS self) M" and "0 < M"
      and "log1p_operand v x" and "0 \<le> x" and "log1p_operand w y" and "x \<le> y"
  shows "calculate_mention_confidence self v \<le> calculate_mention_confidence self w"
proof -
  have "log1p x \<le> log1p y"
    using assms(4,6) by (rule log1p_mono)
  then have "log1p x / log1p M \<le> log1p y / log1p M"
    using log1p_pos[OF assms(2)] by (simp add: divide_right_mono)
  then show ?thesis
    by (auto simp: confidence_value[OF assms(1,3)] confidence_value[OF assms(1,5)] min_def max_def)
qed

lemma log1p_operand_is_engagement_operand: "log1p_operand v x \<Longrightarrow> engagement_operand v x"
  by (cases v) (simp_all add: log1p_operand_def engagement_operand_def)

lemma default_mins:
  "log1p_operand (MIN_MENTIONS default_thresholds) 5"
  "log1p_operand (MIN_ENGAGEMENT default_thresholds) 100"
  "MIN_MENTIONS default_thresholds = PInt 5"
  "MIN_ENGAGEMENT default_thresholds = PNum 100"
  "positive_number (MIN_MENTIONS default_thresholds)"
  "positive_number (MIN_ENGAGEMENT default_thresholds)"
  by (simp_all add: default_thresholds_def log1p_operand_def positive_number_def)

lemma ratio_at_least_one: "a \<le> b \<Longrightarrow> 0 < a \<Longrightarrow> 1 \<le> log1p b / log1p a"
  using log1p_mono[of a b] log1p_pos[of a] by (simp add: le_divide_eq)

text \<open>
  Claim C6, as amended. For thresholds whose \<^verbatim>\<open>MIN_MENTIONS\<close> is a positive number that
  \<^verbatim>\<open>np.log1p\<close> accepts, with value \<open>M\<close>, and every mention count that is a float \<open>x \<ge> 0\<close>
  or an int \<open>x\<close> with \<open>0 \<le> x < 2^64\<close>, the mention confidence is
  \<open>ln (1 + x) / ln (1 + M)\<close> clamped to \<open>[0, 1]\<close>; it is 0 at count 0 and exactly 1 at count
  \<^verbatim>\<open>MIN_MENTIONS\<close>; over these counts it is monotonically non-decreasing. For every input
  it lies in \<open>[0, 1]\<close>. For an int count of \<open>2^64\<close> or more \<^verbatim>\<open>np.log1p\<close> raises and the
  handler returns 0.0. The default \<^verbatim>\<open>MIN_MENTIONS\<close> is the int 5.
\<close>

theorem mention_confidence_properties:
  "(\<forall>self M v x w y.
      log1p_operand (MIN_MENTIONS self) M \<and> 0 < M \<and> log1p_operand v x \<and> 0 \<le> x \<longrightarrow>
        calculate_mention_confidence self v = min 1 (max 0 (ln (1 + x) / ln (1 + M))) \<and>
        calculate_mention_confidence self (PInt 0) = 0 \<and>
        calculate_mention_confidence self (MIN_MENTIONS self) = 1 \<and>
        (log1p_operand w y \<and> x \<le> y \<longrightarrow>
           calculate_mention_confidence self v \<le> calculate_mention_confidence self w)) \<and>
   (\<forall>self v. 0 \<le> calculate_mention_confidence self v \<and>
             calculate_mention_confidence self v \<le> 1) \<and>
   (\<forall>self k. 2 ^ 64 \<le> k \<longrightarrow> calculate_mention_confidence self (PInt k) = 0) \<and>
   MIN_MENTIONS default_thresholds = PInt 5 \<and>
   calculate_mention_confidence default_thresholds (PInt 5) = 1"
proof -
  have at_min: "calculate_mention_confidence self (MIN_MENTIONS self) = 1"
    if "log1p_operand (MIN_MENTIONS self) M" "0 < M" for self M
    using log1p_pos[OF that(2)] by (simp add: confidence_value[OF that(1) that(1)])
  have zero_op: "log1p_operand (PInt 0) 0"
    by (simp add: log1p_operand_def)
  have at_zero: "calculate_mention_confidence self (PInt 0) = 0"
    if "log1p_operand (MIN_MENTIONS self) M" for self M
    by (simp add: confidence_value[OF that zero_op] log1p_zero)
  have main: "calculate_mention_confidence self v = min 1 (max 0 (ln (1 + x) / ln (1 + M))) \<and>
        calculate_mention_confidence self (PInt 0) = 0 \<and>
        calculate_mention_confidence self (MIN_MENTIONS self) = 1 \<and>
        (log1p_operand w y \<and> x \<le> y \<longrightarrow>
           calculate_mention_confidence self v \<le> calculate_mention_confidence self w)"
    if "log1p_operand (MIN_MENTIONS self) M \<and> 0 < M \<and> log1p_operand v x \<and> 0 \<le> x"
    for self M v x w y
    using that at_min[of self M] at_zero[of self M] confidence_mono[of self M v x w y]
      confidence_value[of self M v x]
    by (simp add: log1p_def)
  have d1: "calculate_mention_confidence default_thresholds (PInt 5) = 1"
    using at_min[OF default_mins(1)] by (simp add: default_mins(3))
  show ?thesis
    using main confidence_bounds confidence_large_int default_mins(3) d1
    by (intro conjI allI impI) blast+
qed

theorem mention_confidence_properties_witness:
  "log1p_operand (MIN_MENTIONS default_thresholds) 5 \<and> (0::real) < 5 \<and>
   log1p_operand (PInt 3) 3 \<and> (0::real) \<le> 3 \<and> log1p_operand (PInt 7) 7 \<and> (3::real) \<le> 7 \<and>
   calculate_mention_confidence default_thresholds (PInt 3) = min 1 (max 0 (ln (1 + 3) / ln (1 + 5))) \<and>
   calculate_mention_confidence default_thresholds (PInt 3)
     \<le> calculate_mention_confidence default_thresholds (PInt 7) \<and>
   calculate_mention_confidence default_thresholds (PInt (2 ^ 64)) = 0"
proof -
  have h: "log1p_operand (MIN_MENTIONS default_thresholds) 5 \<and> (0::real) < 5 \<and>
           log1p_operand (PInt 3) 3 \<and> (0::real) \<le> 3"
    by (simp add: default_thresholds_def log1p_operand_def)
  have h2: "log1p_operand (PInt 7) 7 \<and> (3::real) \<le> 7"
    by (simp add: log1p_operand_def)
  note c = mention_confidence_properties[THEN conjunct1, rule_format, OF h]
  have a: "calculate_mention_confidence default_thresholds (PInt 3)
             = min 1 (max 0 (ln (1 + 3) / ln (1 + 5)))"
    by (rule c[THEN conjunct1])
  have b: "calculate_mention_confidence default_thresholds (PInt 3)
     \<le> calculate_mention_confidence default_thresholds (PInt 7)"
    by (rule c[THEN conjunct2, THEN conjunct2, THEN conjunct2, rule_format, OF h2])
  have e: "calculate_mention_confidence default_thresholds (PInt (2 ^ 64)) = 0"
    by (rule mention_confidence_properties[THEN conjunct2, THEN conjunct2, THEN conjunct1, rule_format]) simp
  show ?thesis using h h2 a b e by simp
qed

text \<open>
  Claim C6 as stated fails for int counts: with the default thresholds the confidence is 1
  at \<open>2^63\<close> and 0 at \<open>2^64\<close>, so it is neither the clamped quotient there nor monotone.
\<close>

theorem mention_confidence_counterexample:
  "calculate_mention_confidence default_thresholds (PInt (2 ^ 63)) = 1 \<and>
   calculate_mention_confidence default_thresholds (PInt (2 ^ 64)) = 0 \<and>
   \<not> calculate_mention_confidence default_thresholds (PInt (2 ^ 63))
       \<le> calculate_mention_confidence default_thresholds (PInt (2 ^ 64)) \<and>
   calculate_mention_confidence default_thresholds (PInt (2 ^ 64))
     \<noteq> min 1 (max 0 (ln (1 + 2 ^ 64) / ln (1 + 5)))"
proof -
  have op: "log1p_operand (PInt (2 ^ 63)) (2 ^ 63)"
    by (simp add: log1p_operand_def)
  have v: "calculate_mention_confidence default_thresholds (PInt (2 ^ 63))
             = min 1 (max 0 (log1p (2 ^ 63) / log1p 5))"
    by (rule confidence_value[OF default_mins(1) op])
  have "1 \<le> log1p (2 ^ 63) / log1p 5"
    by (rule ratio_at_least_one) simp_all
  then have a: "calculate_mention_confidence default_thresholds (PInt (2 ^ 63)) = 1"
    unfolding v by simp
  have b: "calculate_mention_confidence default_thresholds (PInt (2 ^ 64)) = 0"
    by (rule confidence_large_int) simp
  have "1 \<le> log1p (2 ^ 64) / log1p 5"
    by (rule ratio_at_least_one) simp_all
  then have c: "min 1 (max 0 (ln (1 + 2 ^ 64) / ln (1 + 5))) = (1::real)"
    by (simp add: log1p_def)
  show ?thesis using a b c by simp
qed

text \<open>
  Claim C7, as amended. For thresholds whose \<^verbatim>\<open>MIN_ENGAGEMENT\<close> is a positive number that
  \<^verbatim>\<open>np.log1p\<close> accepts, with value \<open>E\<close>, and every engagement score that is a float \<open>x\<close> or
  an int \<open>x < 2^64\<close>, the engagement impact is \<open>ln (1 + max 0 x) / ln (1 + E)\<close> clamped to at
  most 1, with no lower clamp; it is 0 at score 0 and 1 at score \<^verbatim>\<open>MIN_ENGAGEMENT\<close> (1 at
  100.0 for the default 100.0); over these scores it is monotonically non-decreasing. For
  every input it is at most 1. For an int score of \<open>2^64\<close> or more \<^verbatim>\<open>np.log1p\<close> raises
  and the handler returns 0.0.
\<close>

theorem engagement_impact_properties:
  "(\<forall>self E v x w y.
      log1p_operand (MIN_ENGAGEMENT self) E \<and> 0 < E \<and> engagement_operand v x \<longrightarrow>
        calculate_engagement_impact self v = min 1 (ln (1 + max 0 x) / ln (1 + E)) \<and>
        calculate_engagement_impact self (PNum 0) = 0 \<and>
        calculate_engagement_impact self (PInt 0) = 0 \<and>
        calculate_engagement_impact self (MIN_ENGAGEMENT self) = 1 \<and>
        (engagement_operand w y \<and> x \<le> y \<longrightarrow>
           calculate_engagement_impact self v \<le> calculate_engagement_impact self w)) \<and>
   (\<forall>self v. calculate_engagement_impact self v \<le> 1) \<and>
   (\<forall>self k. 2 ^ 64 \<le> k \<longrightarrow> calculate_engagement_impact self (PInt k) = 0) \<and>
   MIN_ENGAGEMENT default_thresholds = PNum 100 \<and>
   calculate_engagement_impact default_thresholds (PNum 100) = 1"
proof -
  have at_min: "calculate_engagement_impact self (MIN_ENGAGEMENT self) = 1"
    if "log1p_operand (MIN_ENGAGEMENT self) E" "0 < E" for self E
    using log1p_pos[OF that(2)] that(2)
    by (simp add: engagement_value[OF that(1) log1p_operand_is_engagement_operand[OF that(1)]])
  have zero_op: "engagement_operand (PInt 0) 0" "engagement_operand (PNum 0) 0"
    by (simp_all add: engagement_operand_def)
  have at_zero: "calculate_engagement_impact self (PInt 0) = 0"
      "calculate_engagement_impact self (PNum 0) = 0"
    if "log1p_operand (MIN_ENGAGEMENT self) E" for self E
    by (simp_all add: engagement_value[OF that zero_op(1)] engagement_value[OF that zero_op(2)]
          log1p_zero)
  have main: "calculate_engagement_impact self v = min 1 (ln (1 + max 0 x) / ln (1 + E)) \<and>
        calculate_engagement_impact self (PNum 0) = 0 \<and>
        calculate_engagement_impact self (PInt 0) = 0 \<and>
        calculate_engagement_impact self (MIN_ENGAGEMENT self) = 1 \<and>
        (engagement_operand w y \<and> x \<le> y \<longrightarrow>
           calculate_engagement_impact self v \<le> calculate_engagement_impact self w)"
    if "log1p_operand (MIN_ENGAGEMENT self) E \<and> 0 < E \<and> engagement_operand v x"
    for self E v x w y
    using that at_min[of self E] at_zero[of self E] engagement_mono[of self E v x w y]
      engagement_value[of self E v x]
    by (simp add: log1p_def)
  have d1: "calculate_engagement_impact default_thresholds (PNum 100) = 1"
    using at_min[OF default_mins(2)] by (simp add: default_mins(4))
  show ?thesis
    using main engagement_upper engagement_large_int default_mins(4) d1
    by (intro conjI allI impI) blast+
qed

theorem engagement_impact_properties_witness:
  "log1p_operand (MIN_ENGAGEMENT default_thresholds) 100 \<and> (0::real) < 100 \<and>
   engagement_operand (PNum (- 3)) (- 3) \<and> engagement_operand (PInt 500) 500 \<and>
   (- 3::real) \<le> 500 \<and>
   calculate_engagement_impact default_thresholds (PNum (- 3)) = 0 \<and>
   calculate_engagement_impact default_thresholds (PNum (- 3))
     \<le> calculate_engagement_impact default_thresholds (PInt 500) \<and>
   calculate_engagement_impact default_thresholds (PInt (2 ^ 64)) = 0"
proof -
  have h: "log1p_operand (MIN_ENGAGEMENT default_thresholds) 100 \<and> (0::real) < 100 \<and>
           engagement_operand (PNum (- 3)) (- 3)"
    by (simp add: default_thresholds_def log1p_operand_def engagement_operand_def)
  have h2: "engagement_operand (PInt 500) 500 \<and> (- 3::real) \<le> 500"
    by (simp add: engagement_operand_def)
  note c = engagement_impact_properties[THEN conjunct1, rule_format, OF h]
  have "calculate_engagement_impact default_thresholds (PNum (- 3))
             = min 1 (ln (1 + max 0 (- 3)) / ln (1 + 100))"
    by (rule c[THEN conjunct1])
  then have a: "calculate_engagement_impact default_thresholds (PNum (- 3)) = 0"
    by simp
  have b: "calculate_engagement_impact default_thresholds (PNum (- 3))
     \<le> calculate_engagement_impact default_thresholds (PInt 500)"
    by (rule c[THEN conjunct2, THEN conjunct2, THEN conjunct2, THEN conjunct2, rule_format, OF h2])
  have e: "calculate_engagement_impact default_thresholds (PInt (2 ^ 64)) = 0"
    by (rule engagement_impact_properties[THEN conjunct2, THEN conjunct2, THEN conjunct1, rule_format]) simp
  show ?thesis using h h2 a b e by simp
qed

text \<open>
  Claim C7 as stated fails for int scores: with the default thresholds the impact is 1 at
  \<open>2^63\<close> and 0 at \<open>2^64\<close>, so it is neither the clamped quotient there nor monotone.
\<close>

theorem engagement_impact_counterexample:
  "calculate_engagement_impact default_thresholds (PInt (2 ^ 63)) = 1 \<and>
   calculate_engagement_impact default_thresholds (PInt (2 ^ 64)) = 0 \<and>
   \<not> calculate_engagement_impact default_thresholds (PInt (2 ^ 63))
       \<le> calculate_engagement_impact default_thresholds (PInt (2 ^ 64)) \<and>
   calculate_engagement_impact default_thresholds (PInt (2 ^ 64))
     \<noteq> min 1 (ln (1 + max 0 (2 ^ 64)) / ln (1 + 100))"
proof -
  have op: "engagement_operand (PInt (2 ^ 63)) (2 ^ 63)"
    by (simp add: engagement_operand_def)
  have v: "calculate_engagement_impact default_thresholds (PInt (2 ^ 63))
             = min 1 (log1p (max 0 (2 ^ 63)) / log1p 100)"
    by (rule engagement_value[OF default_mins(2) op])
  have "1 \<le> log1p (2 ^ 63) / log1p 100"
    by (rule ratio_at_least_one) simp_all
  then have a: "calculate_engagement_impact default_thresholds (PInt (2 ^ 63)) = 1"
    unfolding v by simp
  have b: "calculate_engagement_impact default_thresholds (PInt (2 ^ 64)) = 0"
    by (rule engagement_large_int) simp
  have "1 \<le> log1p (2 ^ 64) / log1p 100"
    by (rule ratio_at_least_one) simp_all
  then have c: "min 1 (ln (1 + max 0 (2 ^ 64)) / ln (1 + 100)) = (1::real)"
    by (simp add: log1p_def)
  show ?thesis using a b c by simp
qed

section \<open>Signal strength and signal type\<close>

lemma determine_numeric:
  assumes "STRONG_BUY_THRESHOLD self = PNum sb" and "BUY_THRESHOLD self = PNum b"
      and "SELL_THRESHOLD self = PNum sl" and "STRONG_SELL_THRESHOLD self = PNum ss"
  shows "determine_signal_type self strength =
           Inr (if strength \<ge> sb then STRONG_BUY
                else if strength \<ge> b then BUY
                else if strength \<le> ss then STRONG_SELL
                else if strength \<le> sl then SELL
                else NEUTRAL)"
  using assms by (simp add: determine_signal_type_def py_ge_def py_le_def)

lemma generate_signal_SomeD:
  assumes "generate_signal self c sd m e = Some sig"
  shows "signal_strength sig =
           calculate_sentiment_score sd * 0.5 + calculate_engagement_impact self e * 0.3
             + calculate_mention_confidence self m * 0.2"
    and "determine_signal_type self (signal_strength sig) = Inr (signal_type sig)"
    and "coin sig = c"
    and "confidence sig = calculate_mention_confidence self m"
  using assms
  by (auto simp: generate_signal_def generate_signal_try_def Let_def split: sum.splits
      elim!: py_bind.elims)

lemma generate_signal_numeric:
  assumes "STRONG_BUY_THRESHOLD self = PNum sb" and "BUY_THRESHOLD self = PNum b"
      and "SELL_THRESHOLD self = PNum sl" and "STRONG_SELL_THRESHOLD self = PNum ss"
  shows "\<exists>sig. generate_signal self c sd m e = Some sig"
  by (simp add: generate_signal_def generate_signal_try_def Let_def determine_numeric[OF assms])

lemma strength_bounds:
  assumes "0 \<le> ei" "ei \<le> 1" "0 \<le> cf" "cf \<le> 1" "- 1 \<le> ss" "ss \<le> (1::real)"
  shows "- 0.5 \<le> ss * 0.5 + ei * 0.3 + cf * 0.2 \<and> ss * 0.5 + ei * 0.3 + cf * 0.2 \<le> 1"
  using assms by simp

lemma default_thresholds_simps:
  "STRONG_BUY_THRESHOLD default_thresholds = PNum 0.8"
  "BUY_THRESHOLD default_thresholds = PNum 0.5"
  "SELL_THRESHOLD default_thresholds = PNum (-0.5)"
  "STRONG_SELL_THRESHOLD default_thresholds = PNum (-0.8)"
  "MIN_MENTIONS default_thresholds = PInt 5"
  "MIN_ENGAGEMENT default_thresholds = PNum 100"
  by (simp_all add: default_thresholds_def)

lemma determine_default:
  "determine_signal_type default_thresholds strength =
           Inr (if strength \<ge> 0.8 then STRONG_BUY
                else if strength \<ge> 0.5 then BUY
                else if strength \<le> - 0.8 then STRONG_SELL
                else if strength \<le> - 0.5 then SELL
                else NEUTRAL)"
  using determine_numeric[OF default_thresholds_simps(1-4), of strength] by simp

lemma generate_signal_default:
  "\<exists>sig. generate_signal default_thresholds c sd m e = Some sig"
  by (rule generate_signal_numeric[OF default_thresholds_simps(1-4)])

lemma generate_signal_strength_range:
  assumes "generate_signal self c sd m e = Some sig"
      and "positive_number (MIN_ENGAGEMENT self)"
  shows "- 0.5 \<le> signal_strength sig \<and> signal_strength sig \<le> 1"
  unfolding generate_signal_SomeD(1)[OF assms(1)]
  using engagement_lower[OF assms(2), of e] engagement_upper[of self e]
        confidence_bounds[of self m] sentiment_bounds[of sd]
  by (intro strength_bounds) simp_all

lemma lowest_signal:
  "map_option (\<lambda>s. (signal_type s, signal_strength s))
     (generate_signal default_thresholds c
        (PDict [(''compound'', PNum (-1)), (''pos'', PNum 0), (''neg'', PNum 1)])
        (PNum 0) (PNum 0)) = Some (SELL, - 0.5)"
proof -
  let ?sd = "PDict [(''compound'', PNum (-1)), (''pos'', PNum 0), (''neg'', PNum 1)]"
  obtain sig where sig: "generate_signal default_thresholds c ?sd (PNum 0) (PNum 0) = Some sig"
    using generate_signal_default by blast
  have s: "calculate_sentiment_score ?sd = - 1"
    by (simp add: calculate_sentiment_score_def calculate_sentiment_score_try_def py_get_def
          py_float_def py_gt_zero_def float_int_limit_def)
  have e: "calculate_engagement_impact default_thresholds (PNum 0) = 0"
    by (simp add: engagement_value[OF default_mins(2), of _ 0] engagement_operand_def log1p_zero)
  have m: "calculate_mention_confidence default_thresholds (PNum 0) = 0"
    by (simp add: confidence_value[OF default_mins(1), of _ 0] log1p_operand_def log1p_zero)
  have st: "signal_strength sig = - 0.5"
    using generate_signal_SomeD(1)[OF sig] s e m by simp
  have "determine_signal_type default_thresholds (- 0.5) = Inr (signal_type sig)"
    using generate_signal_SomeD(2)[OF sig] st by simp
  then have "signal_type sig = SELL"
    by (simp add: determine_default)
  with st sig show ?thesis by simp
qed

lemma highest_signal:
  "map_option (\<lambda>s. (signal_type s, signal_strength s))
     (generate_signal default_thresholds c
        (PDict [(''compound'', PNum 1), (''pos'', PNum 1), (''neg'', PNum 0)])
        (PNum 5) (PNum 100)) = Some (STRONG_BUY, 1)"
proof -
  let ?sd = "PDict [(''compound'', PNum 1), (''pos'', PNum 1), (''neg'', PNum 0)]"
  obtain sig where sig: "generate_signal default_thresholds c ?sd (PNum 5) (PNum 100) = Some sig"
    using generate_signal_default by blast
  have s: "calculate_sentiment_score ?sd = 1"
    by (simp add: calculate_sentiment_score_def calculate_sentiment_score_try_def py_get_def
          py_float_def py_gt_zero_def float_int_limit_def)
  have "log1p 100 \<noteq> 0" "log1p 5 \<noteq> 0"
    using log1p_pos[of 100] log1p_pos[of 5] by simp_all
  then have e: "calculate_engagement_impact default_thresholds (PNum 100) = 1"
    and m: "calculate_mention_confidence default_thresholds (PNum 5) = 1"
    by (simp_all add: engagement_value[OF default_mins(2), of _ 100]
          confidence_value[OF default_mins(1), of _ 5] engagement_operand_def log1p_operand_def)
  have st: "signal_strength sig = 1"
    using generate_signal_SomeD(1)[OF sig] s e m by simp
  have "determine_signal_type default_thresholds 1 = Inr (signal_type sig)"
    using generate_signal_SomeD(2)[OF sig] st by simp
  then have "signal_type sig = STRONG_BUY"
    by (simp add: determine_default)
  with st sig show ?thesis by simp
qed



text \<open>
  Claim C3. The strength of every signal that \<^verbatim>\<open>generate_signal\<close> returns is
  \<open>sentiment_score * 0.5 + engagement_impact * 0.3 + confidence * 0.2\<close>, with no further
  clamping. For thresholds whose \<^verbatim>\<open>MIN_ENGAGEMENT\<close> and \<^verbatim>\<open>MIN_MENTIONS\<close> are positive
  numbers, floats or ints, and a mention count in the domain of the model it lies in
  \<open>[-0.5, 1]\<close>, and both ends are attained with the default thresholds.
\<close>

theorem signal_strength_formula_and_range:
  "(\<forall>self c sd m e sig.
      generate_signal self c sd m e = Some sig \<longrightarrow>
      signal_strength sig =
        calculate_sentiment_score sd * 0.5 + calculate_engagement_impact self e * 0.3
          + calculate_mention_confidence self m * 0.2 \<and>
      (positive_number (MIN_ENGAGEMENT self) \<and> positive_number (MIN_MENTIONS self) \<and>
       log1p_real_or_raises m \<longrightarrow>
         - 0.5 \<le> signal_strength sig \<and> signal_strength sig \<le> 1)) \<and>
   map_option signal_strength
     (generate_signal default_thresholds (PStr ''BTC'')
        (PDict [(''compound'', PNum (-1)), (''pos'', PNum 0), (''neg'', PNum 1)])
        (PNum 0) (PNum 0)) = Some (- 0.5) \<and>
   map_option signal_strength
     (generate_signal default_thresholds (PStr ''BTC'')
        (PDict [(''compound'', PNum 1), (''pos'', PNum 1), (''neg'', PNum 0)])
        (PNum 5) (PNum 100)) = Some 1"
proof -
  have lo: "map_option signal_strength
     (generate_signal default_thresholds (PStr ''BTC'')
        (PDict [(''compound'', PNum (-1)), (''pos'', PNum 0), (''neg'', PNum 1)])
        (PNum 0) (PNum 0)) = Some (- 0.5)"
    using lowest_signal[of "PStr ''BTC''"] by auto
  have hi: "map_option signal_strength
     (generate_signal default_thresholds (PStr ''BTC'')
        (PDict [(''compound'', PNum 1), (''pos'', PNum 1), (''neg'', PNum 0)])
        (PNum 5) (PNum 100)) = Some 1"
    using highest_signal[of "PStr ''BTC''"] by auto
  show ?thesis
    using generate_signal_SomeD(1) generate_signal_strength_range lo hi
    by (intro conjI allI impI) blast+
qed

theorem signal_strength_formula_and_range_witness:
  "positive_number (MIN_ENGAGEMENT default_thresholds) \<and>
   positive_number (MIN_MENTIONS default_thresholds) \<and>
   log1p_real_or_raises (PNum 0) \<and>
   (\<exists>sig. generate_signal default_thresholds (PStr ''BTC'') (PDict []) (PNum 0) (PNum 0) = Some sig \<and>
      signal_strength sig = - 0.1 \<and> - 0.5 \<le> signal_strength sig \<and> signal_strength sig \<le> 1)"
proof -
  obtain sig where sig: "generate_signal default_thresholds (PStr ''BTC'') (PDict []) (PNum 0) (PNum 0) = Some sig"
    using generate_signal_default by blast
  have h: "positive_number (MIN_ENGAGEMENT default_thresholds) \<and>
           positive_number (MIN_MENTIONS default_thresholds) \<and>
           log1p_real_or_raises (PNum 0)"
    by (simp add: default_thresholds_def positive_number_def log1p_real_or_raises_def)
  have s: "calculate_sentiment_score (PDict []) = - 0.2"
    by (simp add: calculate_sentiment_score_def calculate_sentiment_score_try_def py_get_def
          py_float_def py_gt_zero_def float_int_limit_def)
  have e: "calculate_engagement_impact default_thresholds (PNum 0) = 0"
    by (simp add: engagement_value[OF default_mins(2), of _ 0] engagement_operand_def log1p_zero)
  have m: "calculate_mention_confidence default_thresholds (PNum 0) = 0"
    by (simp add: confidence_value[OF default_mins(1), of _ 0] log1p_operand_def log1p_zero)
  from signal_strength_formula_and_range sig h have
    "signal_strength sig =
        calculate_sentiment_score (PDict []) * 0.5
          + calculate_engagement_impact default_thresholds (PNum 0) * 0.3
          + calculate_mention_confidence default_thresholds (PNum 0) * 0.2 \<and>
     - 0.5 \<le> signal_strength sig \<and> signal_strength sig \<le> 1"
    by blast
  then show ?thesis using sig h s e m by simp
qed

text \<open>
  Claim C10. With the default thresholds \<^verbatim>\<open>generate_signal\<close> returns a signal for every
  input, and for a mention count in the domain of the model that signal is never
  STRONG_SELL: its strength is at least \<open>-0.5\<close>, and its type is SELL exactly when the
  strength is \<open>-0.5\<close>, which the input compound \<open>-1\<close>, pos 0, neg 1 with no mentions and no
  engagement reaches.
\<close>

theorem default_thresholds_never_strong_sell:
  "(\<forall>c sd m e. log1p_real_or_raises m \<longrightarrow>
      (\<exists>sig. generate_signal default_thresholds c sd m e = Some sig \<and>
         signal_type sig \<noteq> STRONG_SELL \<and>
         - 0.5 \<le> signal_strength sig \<and>
         (signal_type sig = SELL \<longleftrightarrow> signal_strength sig = - 0.5))) \<and>
   map_option (\<lambda>s. (signal_type s, signal_strength s))
     (generate_signal default_thresholds (PStr ''BTC'')
        (PDict [(''compound'', PNum (-1)), (''pos'', PNum 0), (''neg'', PNum 1)])
        (PNum 0) (PNum 0)) = Some (SELL, - 0.5)"
proof -
  have main: "\<exists>sig. generate_signal default_thresholds c sd m e = Some sig \<and>
         signal_type sig \<noteq> STRONG_SELL \<and>
         - 0.5 \<le> signal_strength sig \<and>
         (signal_type sig = SELL \<longleftrightarrow> signal_strength sig = - 0.5)" for c sd m e
  proof -
    obtain sig where sig: "generate_signal default_thresholds c sd m e = Some sig"
      using generate_signal_default by blast
    have r: "- 0.5 \<le> signal_strength sig"
      using generate_signal_strength_range[OF sig default_mins(6)] by simp
    have "determine_signal_type default_thresholds (signal_strength sig) = Inr (signal_type sig)"
      by (rule generate_signal_SomeD(2)[OF sig])
    then have ty: "signal_type sig =
           (if signal_strength sig \<ge> 0.8 then STRONG_BUY
                else if signal_strength sig \<ge> 0.5 then BUY
                else if signal_strength sig \<le> - 0.8 then STRONG_SELL
                else if signal_strength sig \<le> - 0.5 then SELL
                else NEUTRAL)"
      by (simp add: determine_default)
    have "signal_type sig \<noteq> STRONG_SELL" using ty r by (simp split: if_splits)
    moreover have "signal_type sig = SELL \<longleftrightarrow> signal_strength sig = - 0.5"
      using ty r by (auto split: if_splits)
    ultimately show ?thesis using sig r by blast
  qed
  show ?thesis using main lowest_signal[of "PStr ''BTC''"] by blast
qed

theorem default_thresholds_never_strong_sell_witness:
  "log1p_real_or_raises (PInt 7) \<and>
   (\<exists>sig. generate_signal default_thresholds (PStr ''ETH'') PNone (PInt 7) (PStr ''x'') = Some sig \<and>
      signal_type sig \<noteq> STRONG_SELL)"
proof -
  have h: "log1p_real_or_raises (PInt 7)"
    by (simp add: log1p_real_or_raises_def)
  with default_thresholds_never_strong_sell show ?thesis by blast
qed

section \<open>The batch: order and skipped items\<close>

lemma batch_loop_append:
  "batch_loop self signals coin_data = signals @ concat (map (kept_signals self) coin_data)"
  by (induction coin_data arbitrary: signals)
     (auto simp: kept_signals_def split: sum.splits option.splits)

lemma sorted_reverse_sorted:
  "sorted_wrt (\<lambda>a b. key a \<ge> key b) (sorted_reverse key xs)"
proof -
  have "sorted (map key (sort_key key (rev xs)))"
    by (rule sorted_sort_key)
  then have "sorted_wrt (\<lambda>a b. key a \<le> key b) (sort_key key (rev xs))"
    by (simp add: sorted_map)
  then show ?thesis
    by (simp add: sorted_reverse_def sorted_wrt_rev)
qed

lemma mset_sorted_reverse: "mset (sorted_reverse key xs) = mset xs"
  by (simp add: sorted_reverse_def)

lemma batch_skip:
  assumes "kept_signals self data = []"
  shows "generate_signals_batch self (xs @ data # ys) = generate_signals_batch self (xs @ ys)"
  using assms by (simp add: generate_signals_batch_def batch_loop_append)

lemma batch_sorted:
  "sorted_wrt (\<lambda>a b. \<bar>signal_strength a\<bar> \<ge> \<bar>signal_strength b\<bar>) (generate_signals_batch self coin_data)"
  unfolding generate_signals_batch_def by (rule sorted_reverse_sorted)

lemma batch_mset:
  "mset (generate_signals_batch self coin_data) = mset (concat (map (kept_signals self) coin_data))"
  by (simp add: generate_signals_batch_def mset_sorted_reverse batch_loop_append)

lemma sorted_wrt_adjacent:
  "sorted_wrt P xs \<Longrightarrow> Suc i < length xs \<Longrightarrow> P (xs ! i) (xs ! Suc i)"
  by (simp add: sorted_wrt_iff_nth_less)

lemma kept_signals_raise: "batch_item_try self data = Inl e \<Longrightarrow> kept_signals self data = []"
  by (simp add: kept_signals_def)

lemma kept_signals_None: "batch_item_try self data = Inr None \<Longrightarrow> kept_signals self data = []"
  by (simp add: kept_signals_def)

lemma batch_item_try_fields:
  assumes "py_subscript data ''coin'' = Inr c" and "py_subscript data ''sentiment'' = Inr sd"
      and "py_subscript data ''mentions'' = Inr m" and "py_subscript data ''engagement'' = Inr e"
  shows "batch_item_try self data = Inr (generate_signal self c sd m e)"
  using assms by (simp add: batch_item_try_def)

lemma sentiment_not_dict:
  "\<forall>kvs. sd \<noteq> PDict kvs \<Longrightarrow> calculate_sentiment_score_try sd = Inl AttributeError"
  by (cases sd) (simp_all add: calculate_sentiment_score_try_def py_get_def)

lemma py_sub_not_number:
  "number_value a = None \<or> number_value b = None \<Longrightarrow> py_sub a b = Inl TypeError"
  by (cases a; cases b) (simp_all add: number_value_def)

lemma py_float_not_number: "number_value v = None \<Longrightarrow> py_float v = Inl TypeError"
  by (cases v) (simp_all add: number_value_def py_float_def)

lemma sentiment_malformed:
  assumes "k \<in> {''compound'', ''pos'', ''neg''}" and "map_of kvs k = Some v"
      and "number_value v = None"
  shows "calculate_sentiment_score (PDict kvs) = 0"
proof (cases "calculate_sentiment_score_try (PDict kvs)")
  case (Inl err)
  then show ?thesis by (simp add: calculate_sentiment_score_def)
next
  case (Inr r)
  then obtain d where
      f: "py_float (case map_of kvs ''compound'' of None \<Rightarrow> PInt 0 | Some v \<Rightarrow> v) \<noteq> Inl TypeError"
      and s: "py_sub (case map_of kvs ''pos'' of None \<Rightarrow> PInt 0 | Some v \<Rightarrow> v)
                 (case map_of kvs ''neg'' of None \<Rightarrow> PInt 0 | Some v \<Rightarrow> v) = Inr d"
    by (auto simp: calculate_sentiment_score_try_def py_get_def py_bind_Inr_iff)
  from assms(1) consider "k = ''compound''" | "k = ''pos''" | "k = ''neg''" by auto
  then have False
  proof cases
    case 1
    then show ?thesis using f assms(2) py_float_not_number[OF assms(3)] by simp
  next
    case 2
    then show ?thesis using s assms(2) py_sub_not_number[of v] assms(3) by simp
  next
    case 3
    then show ?thesis using s assms(2) py_sub_not_number[of _ v] assms(3) by simp
  qed
  then show ?thesis ..
qed

lemma sentiment_overflow:
  assumes "map_of kvs ''compound'' = Some (PInt k)" and "float_int_limit \<le> \<bar>k\<bar>"
  shows "calculate_sentiment_score_try (PDict kvs) = Inl OverflowError"
  using assms by (simp add: calculate_sentiment_score_try_def py_get_def py_float_def)

lemma generate_signal_handler:
  "generate_signal_try self c sd m e = Inl err \<Longrightarrow> generate_signal self c sd m e = None"
  by (simp add: generate_signal_def)

lemma generate_signal_bad_threshold:
  "number_value (STRONG_BUY_THRESHOLD self) = None \<Longrightarrow>
   generate_signal_try self c sd m e = Inl TypeError"
  by (cases "STRONG_BUY_THRESHOLD self")
     (simp_all add: generate_signal_try_def determine_signal_type_def py_ge_def number_value_def
        Let_def)

lemma generate_signal_zero_inputs:
  "generate_signal default_thresholds c sd (PNum 0) (PNum 0) =
     Some \<lparr> coin = c,
            signal_type = (if calculate_sentiment_score sd \<ge> 1 then BUY
                           else if calculate_sentiment_score sd \<le> - 1 then SELL else NEUTRAL),
            signal_strength = calculate_sentiment_score sd * 0.5,
            confidence = 0,
            metrics = \<lparr> sentiment_score = calculate_sentiment_score sd,
                        engagement_impact = 0,
                        mention_count = PNum 0,
                        raw_sentiment = sd \<rparr> \<rparr>"
proof -
  have e: "calculate_engagement_impact default_thresholds (PNum 0) = 0"
    by (simp add: engagement_value[OF default_mins(2), of _ 0] engagement_operand_def log1p_zero)
  have m: "calculate_mention_confidence default_thresholds (PNum 0) = 0"
    by (simp add: confidence_value[OF default_mins(1), of _ 0] log1p_operand_def log1p_zero)
  show ?thesis
    using sentiment_bounds[of sd]
    by (simp add: generate_signal_def generate_signal_try_def e m determine_default Let_def)
qed

text \<open>
  Claim C8. For every thresholds record and every batch, the list that
  \<^verbatim>\<open>generate_signals_batch\<close> returns is in descending order of the absolute signal
  strength (for every pair, so for every adjacent pair), and it holds exactly the signals
  of the items whose pass of the loop produced one. An item whose pass raises (a missing
  key, say) or for which \<^verbatim>\<open>generate_signal\<close> returns \<^verbatim>\<open>None\<close> contributes nothing,
  and the batch returns what it returns without that item.
\<close>

theorem signals_batch_sorted_and_skipping:
  "(\<forall>self coin_data.
      sorted_wrt (\<lambda>a b. \<bar>signal_strength a\<bar> \<ge> \<bar>signal_strength b\<bar>)
        (generate_signals_batch self coin_data) \<and>
      (\<forall>i. Suc i < length (generate_signals_batch self coin_data) \<longrightarrow>
         \<bar>signal_strength (generate_signals_batch self coin_data ! i)\<bar>
           \<ge> \<bar>signal_strength (generate_signals_batch self coin_data ! Suc i)\<bar>) \<and>
      mset (generate_signals_batch self coin_data)
        = mset (concat (map (kept_signals self) coin_data))) \<and>
   (\<forall>self data xs ys.
      (\<exists>e. batch_item_try self data = Inl e) \<or> batch_item_try self data = Inr None \<longrightarrow>
      kept_signals self data = [] \<and>
      generate_signals_batch self (xs @ data # ys) = generate_signals_batch self (xs @ ys))"
proof -
  have adj: "\<bar>signal_strength (generate_signals_batch self coin_data ! i)\<bar>
           \<ge> \<bar>signal_strength (generate_signals_batch self coin_data ! Suc i)\<bar>"
    if "Suc i < length (generate_signals_batch self coin_data)" for self coin_data i
    using sorted_wrt_adjacent[OF batch_sorted that] .
  have skip: "kept_signals self data = [] \<and>
      generate_signals_batch self (xs @ data # ys) = generate_signals_batch self (xs @ ys)"
    if "(\<exists>e. batch_item_try self data = Inl e) \<or> batch_item_try self data = Inr None"
    for self data xs ys
  proof -
    have "kept_signals self data = []"
      using that kept_signals_raise kept_signals_None by blast
    then show ?thesis using batch_skip by blast
  qed
  show ?thesis
    using batch_sorted batch_mset adj skip by (intro conjI allI impI) blast+
qed

theorem signals_batch_sorted_and_skipping_witness:
  "batch_item_try default_thresholds (PDict [(''coin'', PStr ''C'')]) = Inl KeyError \<and>
   generate_signals_batch default_thresholds
     [PDict [(''coin'', PStr ''A''), (''sentiment'', PDict []),
             (''mentions'', PNum 0), (''engagement'', PNum 0)],
      PDict [(''coin'', PStr ''C'')],
      PDict [(''coin'', PStr ''B''),
             (''sentiment'', PDict [(''compound'', PNum 1), (''pos'', PNum 1)]),
             (''mentions'', PNum 0), (''engagement'', PNum 0)]]
   = generate_signals_batch default_thresholds
     [PDict [(''coin'', PStr ''A''), (''sentiment'', PDict []),
             (''mentions'', PNum 0), (''engagement'', PNum 0)],
      PDict [(''coin'', PStr ''B''),
             (''sentiment'', PDict [(''compound'', PNum 1), (''pos'', PNum 1)]),
             (''mentions'', PNum 0), (''engagement'', PNum 0)]] \<and>
   map coin (generate_signals_batch default_thresholds
     [PDict [(''coin'', PStr ''A''), (''sentiment'', PDict []),
             (''mentions'', PNum 0), (''engagement'', PNum 0)],
      PDict [(''coin'', PStr ''B''),
             (''sentiment'', PDict [(''compound'', PNum 1), (''pos'', PNum 1)]),
             (''mentions'', PNum 0), (''engagement'', PNum 0)]]) = [PStr ''B'', PStr ''A''] \<and>
   \<bar>signal_strength (generate_signals_batch default_thresholds
     [PDict [(''coin'', PStr ''A''), (''sentiment'', PDict []),
             (''mentions'', PNum 0), (''engagement'', PNum 0)],
      PDict [(''coin'', PStr ''B''),
             (''sentiment'', PDict [(''compound'', PNum 1), (''pos'', PNum 1)]),
             (''mentions'', PNum 0), (''engagement'', PNum 0)]] ! 0)\<bar>
   \<ge> \<bar>signal_strength (generate_signals_batch default_thresholds
     [PDict [(''coin'', PStr ''A''), (''sentiment'', PDict []),
             (''mentions'', PNum 0), (''engagement'', PNum 0)],
      PDict [(''coin'', PStr ''B''),
             (''sentiment'', PDict [(''compound'', PNum 1), (''pos'', PNum 1)]),
             (''mentions'', PNum 0), (''engagement'', PNum 0)]] ! Suc 0)\<bar>"
proof -
  let ?A = "PDict [(''coin'', PStr ''A''), (''sentiment'', PDict []),
             (''mentions'', PNum 0), (''engagement'', PNum 0)]"
  let ?B = "PDict [(''coin'', PStr ''B''),
             (''sentiment'', PDict [(''compound'', PNum 1), (''pos'', PNum 1)]),
             (''mentions'', PNum 0), (''engagement'', PNum 0)]"
  let ?C = "PDict [(''coin'', PStr ''C'')]"
  have bad: "batch_item_try default_thresholds ?C = Inl KeyError"
    by (simp add: batch_item_try_def py_subscript_def)
  have sA: "calculate_sentiment_score (PDict []) = - 0.2"
    by (simp add: calculate_sentiment_score_def calculate_sentiment_score_try_def py_get_def
          py_float_def py_gt_zero_def float_int_limit_def)
  have sB: "calculate_sentiment_score (PDict [(''compound'', PNum 1), (''pos'', PNum 1)]) = 1"
    by (simp add: calculate_sentiment_score_def calculate_sentiment_score_try_def py_get_def
          py_float_def py_gt_zero_def float_int_limit_def)
  have coins: "map coin (generate_signals_batch default_thresholds [?A, ?B]) = [PStr ''B'', PStr ''A'']"
    by (simp add: generate_signals_batch_def sorted_reverse_def batch_item_try_def py_subscript_def
          generate_signal_zero_inputs sA sB)
  have len: "Suc 0 < length (generate_signals_batch default_thresholds [?A, ?B])"
    using arg_cong[OF coins, of length] by simp
  have skip: "generate_signals_batch default_thresholds ([?A] @ ?C # [?B])
                = generate_signals_batch default_thresholds ([?A] @ [?B])"
    by (rule signals_batch_sorted_and_skipping[THEN conjunct2, rule_format, THEN conjunct2]) (simp add: bad)
  have adj: "\<bar>signal_strength (generate_signals_batch default_thresholds [?A, ?B] ! 0)\<bar>
      \<ge> \<bar>signal_strength (generate_signals_batch default_thresholds [?A, ?B] ! Suc 0)\<bar>"
    by (rule signals_batch_sorted_and_skipping[THEN conjunct1, rule_format, THEN conjunct2, THEN conjunct1, rule_format, OF len])
  show ?thesis using bad skip coins adj by simp
qed

text \<open>
  Claim C9. An exception in the body of \<^verbatim>\<open>generate_signal\<close> makes it return \<^verbatim>\<open>None\<close>;
  this happens for every thresholds record whose STRONG_BUY cut point is not a number. The
  batch skips an item for which \<^verbatim>\<open>generate_signal\<close> returns \<^verbatim>\<open>None\<close>. An exception in
  the body of \<^verbatim>\<open>_calculate_sentiment_score\<close> makes it return 0.0; this happens when the
  sentiment data is not a dictionary, when one of the fields \<^verbatim>\<open>compound\<close>, \<^verbatim>\<open>pos\<close>,
  \<^verbatim>\<open>neg\<close> is present and not a number, and when \<^verbatim>\<open>compound\<close> is an int too large
  to convert to a float.
\<close>

theorem exceptions_caught_locally:
  "(\<forall>self c sd m e err.
      generate_signal_try self c sd m e = Inl err \<longrightarrow> generate_signal self c sd m e = None) \<and>
   (\<forall>self c sd m e.
      number_value (STRONG_BUY_THRESHOLD self) = None \<longrightarrow>
      generate_signal self c sd m e = None) \<and>
   (\<forall>self data c sd m e xs ys.
      py_subscript data ''coin'' = Inr c \<and> py_subscript data ''sentiment'' = Inr sd \<and>
      py_subscript data ''mentions'' = Inr m \<and> py_subscript data ''engagement'' = Inr e \<and>
      generate_signal self c sd m e = None \<longrightarrow>
      generate_signals_batch self (xs @ data # ys) = generate_signals_batch self (xs @ ys)) \<and>
   (\<forall>sd err.
      calculate_sentiment_score_try sd = Inl err \<longrightarrow> calculate_sentiment_score sd = 0) \<and>
   (\<forall>sd. (\<forall>kvs. sd \<noteq> PDict kvs) \<longrightarrow> calculate_sentiment_score sd = 0) \<and>
   (\<forall>kvs k v.
      k \<in> {''compound'', ''pos'', ''neg''} \<and> map_of kvs k = Some v \<and> number_value v = None \<longrightarrow>
      calculate_sentiment_score (PDict kvs) = 0) \<and>
   (\<forall>kvs k.
      map_of kvs ''compound'' = Some (PInt k) \<and> float_int_limit \<le> \<bar>k\<bar> \<longrightarrow>
      calculate_sentiment_score (PDict kvs) = 0)"
proof -
  have p2: "generate_signal self c sd m e = None"
    if "number_value (STRONG_BUY_THRESHOLD self) = None" for self c sd m e
    using generate_signal_bad_threshold[OF that] generate_signal_handler by blast
  have p3: "generate_signals_batch self (xs @ data # ys) = generate_signals_batch self (xs @ ys)"
    if "py_subscript data ''coin'' = Inr c \<and> py_subscript data ''sentiment'' = Inr sd \<and>
        py_subscript data ''mentions'' = Inr m \<and> py_subscript data ''engagement'' = Inr e \<and>
        generate_signal self c sd m e = None" for self data c sd m e xs ys
  proof -
    have "batch_item_try self data = Inr None"
      using that batch_item_try_fields[of data c sd m e self] by simp
    then show ?thesis using kept_signals_None batch_skip by blast
  qed
  have p5: "calculate_sentiment_score sd = 0" if "\<forall>kvs. sd \<noteq> PDict kvs" for sd
    using sentiment_not_dict[OF that] sentiment_handler by blast
  have p6: "calculate_sentiment_score (PDict kvs) = 0"
    if "k \<in> {''compound'', ''pos'', ''neg''} \<and> map_of kvs k = Some v \<and> number_value v = None"
    for kvs k v
    using that sentiment_malformed[of k kvs v] by blast
  have p7: "calculate_sentiment_score (PDict kvs) = 0"
    if "map_of kvs ''compound'' = Some (PInt k) \<and> float_int_limit \<le> \<bar>k\<bar>" for kvs k
    using that sentiment_overflow[of kvs k] sentiment_handler by blast
  show ?thesis
    using generate_signal_handler p2 p3 sentiment_handler p5 p6 p7
    by (intro conjI allI impI) blast+
qed

theorem exceptions_caught_locally_witness:
  "generate_signal_try (default_thresholds\<lparr>STRONG_BUY_THRESHOLD := PStr ''0.8''\<rparr>)
     (PStr ''A'') (PDict []) (PNum 0) (PNum 0) = Inl TypeError \<and>
   generate_signal (default_thresholds\<lparr>STRONG_BUY_THRESHOLD := PStr ''0.8''\<rparr>)
     (PStr ''A'') (PDict []) (PNum 0) (PNum 0) = None \<and>
   generate_signals_batch (default_thresholds\<lparr>STRONG_BUY_THRESHOLD := PStr ''0.8''\<rparr>)
     [PDict [(''coin'', PStr ''A''), (''sentiment'', PDict []),
             (''mentions'', PNum 0), (''engagement'', PNum 0)]] = [] \<and>
   generate_signal (default_thresholds\<lparr>STRONG_BUY_THRESHOLD := PStr ''0.8''\<rparr>)
     (PStr ''B'') PNone PNone PNone = None \<and>
   calculate_sentiment_score_try (PDict [(''compound'', PStr ''high'')]) = Inl TypeError \<and>
   calculate_sentiment_score (PDict [(''compound'', PStr ''high'')]) = 0 \<and>
   calculate_sentiment_score (PDict [(''neg'', PNone)]) = 0 \<and>
   calculate_sentiment_score (PDict [(''compound'', PInt (10 ^ 400))]) = 0 \<and>
   calculate_sentiment_score PNone = 0"
proof -
  let ?t = "default_thresholds\<lparr>STRONG_BUY_THRESHOLD := PStr ''0.8''\<rparr>"
  let ?A = "PDict [(''coin'', PStr ''A''), (''sentiment'', PDict []),
             (''mentions'', PNum 0), (''engagement'', PNum 0)]"
  have raise: "generate_signal_try ?t (PStr ''A'') (PDict []) (PNum 0) (PNum 0) = Inl TypeError"
    by (simp add: generate_signal_try_def determine_signal_type_def py_ge_def Let_def)
  have none1: "generate_signal ?t (PStr ''A'') (PDict []) (PNum 0) (PNum 0) = None"
    by (rule exceptions_caught_locally[THEN conjunct1, rule_format, OF raise])
  have none2: "generate_signal ?t (PStr ''B'') PNone PNone PNone = None"
    by (rule exceptions_caught_locally[THEN conjunct2, THEN conjunct1, rule_format])
       (simp add: number_value_def)
  have fields: "py_subscript ?A ''coin'' = Inr (PStr ''A'') \<and>
                py_subscript ?A ''sentiment'' = Inr (PDict []) \<and>
                py_subscript ?A ''mentions'' = Inr (PNum 0) \<and>
                py_subscript ?A ''engagement'' = Inr (PNum 0)"
    by (simp add: py_subscript_def)
  have "generate_signals_batch ?t ([] @ ?A # []) = generate_signals_batch ?t ([] @ [])"
    by (rule exceptions_caught_locally[THEN conjunct2, THEN conjunct2, THEN conjunct1, rule_format])
       (use fields none1 in blast)
  then have batch: "generate_signals_batch ?t [?A] = []"
    by (simp add: generate_signals_batch_def sorted_reverse_def)
  have sraise: "calculate_sentiment_score_try (PDict [(''compound'', PStr ''high'')]) = Inl TypeError"
    by (simp add: calculate_sentiment_score_try_def py_get_def py_float_def)
  have s1: "calculate_sentiment_score (PDict [(''compound'', PStr ''high'')]) = 0"
    by (rule exceptions_caught_locally[THEN conjunct2, THEN conjunct2, THEN conjunct2, THEN conjunct1, rule_format, OF sraise])
  have s2: "calculate_sentiment_score (PDict [(''neg'', PNone)]) = 0"
    by (rule exceptions_caught_locally[THEN conjunct2, THEN conjunct2, THEN conjunct2, THEN conjunct2,
                THEN conjunct2, THEN conjunct1, rule_format, where k = "''neg''" and v = PNone])
       (simp add: number_value_def)
  have s4: "calculate_sentiment_score (PDict [(''compound'', PInt (10 ^ 400))]) = 0"
    by (rule exceptions_caught_locally[THEN conjunct2, THEN conjunct2, THEN conjunct2, THEN conjunct2,
                THEN conjunct2, THEN conjunct2, rule_format, where k = "10 ^ 400"])
       (simp add: float_int_limit_def)
  have s3: "calculate_sentiment_score PNone = 0"
    by (rule exceptions_caught_locally[THEN conjunct2, THEN conjunct2, THEN conjunct2, THEN conjunct2, THEN conjunct1,
                rule_format]) simp
  show ?thesis using raise none1 none2 batch sraise s1 s2 s3 s4 by simp
qed

section \<open>process_tweets\<close>

lemma count_mention_keys:
  "map fst (count_mention result cm coin_name) =
     (if coin_name \<in> set (map fst cm) then map fst cm else map fst cm @ [coin_name])"
  by (simp add: count_mention_def Let_def AList.update_keys)

lemma count_mention_distinct:
  "distinct (map fst cm) \<Longrightarrow> distinct (map fst (count_mention result cm coin_name))"
  by (simp add: count_mention_keys)

lemma foldl_count_mention_distinct:
  "distinct (map fst cm) \<Longrightarrow> distinct (map fst (foldl (count_mention result) cm coins))"
  by (induction coins arbitrary: cm) (simp_all add: count_mention_distinct)

lemma count_mentions_distinct_aux:
  "distinct (map fst cm) \<Longrightarrow>
   distinct (map fst (foldl (\<lambda>cm result. foldl (count_mention result) cm (result_crypto_mentions result)) cm results))"
  by (induction results arbitrary: cm) (simp_all add: foldl_count_mention_distinct)

lemma count_mentions_distinct: "distinct (map fst (count_mentions results))"
  unfolding count_mentions_def by (rule count_mentions_distinct_aux) simp

lemma calculate_averages_keys: "map fst (calculate_averages cm) = map fst cm"
  by (induction cm) (auto simp: calculate_averages_def)

lemma generate_signal_metrics:
  "generate_signal self c sd m e = Some sig \<Longrightarrow> mention_count (metrics sig) = m"
  by (auto simp: generate_signal_def generate_signal_try_def Let_def split: sum.splits
      elim!: py_bind.elims)

lemma kept_signals_coin_entry:
  "\<exists>sig. kept_signals default_thresholds (coin_entry (c, d)) = [sig] \<and> coin sig = PStr c \<and>
         mention_count (metrics sig) = PInt (int (mentions d))"
proof -
  let ?sd = "PDict [(''compound'', PNum (avg_sentiment d)),
                      (''pos'', max_zero_float (avg_sentiment d)),
                      (''neg'', max_zero_float (- avg_sentiment d)),
                      (''neu'', PNum (1 - \<bar>avg_sentiment d\<bar>))]"
  obtain sig where sig: "generate_signal default_thresholds (PStr c) ?sd
       (PInt (int (mentions d))) (PNum (total_engagement d)) = Some sig"
    using generate_signal_default by blast
  have "batch_item_try default_thresholds (coin_entry (c, d)) = Inr (Some sig)"
    by (subst batch_item_try_fields[of _ "PStr c" ?sd "PInt (int (mentions d))" "PNum (total_engagement d)"])
       (simp_all add: coin_entry_def py_subscript_def sig)
  then have "kept_signals default_thresholds (coin_entry (c, d)) = [sig]"
    by (simp add: kept_signals_def)
  then show ?thesis
    using generate_signal_SomeD(3)[OF sig] generate_signal_metrics[OF sig] by blast
qed

lemma batch_coins:
  "map coin (concat (map (kept_signals default_thresholds) (map coin_entry xs))) = map (PStr \<circ> fst) xs"
proof (induction xs)
  case Nil
  then show ?case by simp
next
  case (Cons x xs)
  obtain c d where x: "x = (c, d)" by (cases x)
  obtain sig where "kept_signals default_thresholds (coin_entry (c, d)) = [sig]" "coin sig = PStr c"
    using kept_signals_coin_entry by blast
  with Cons x show ?case by simp
qed

lemma batch_members:
  assumes "sig \<in> set (concat (map (kept_signals default_thresholds) (map coin_entry xs)))"
  shows "\<exists>c d. (c, d) \<in> set xs \<and> coin sig = PStr c \<and>
           mention_count (metrics sig) = PInt (int (mentions d))"
proof -
  from assms obtain x where x: "x \<in> set xs" "sig \<in> set (kept_signals default_thresholds (coin_entry x))"
    by auto
  obtain c d where cd: "x = (c, d)" by (cases x)
  obtain sig' where "kept_signals default_thresholds (coin_entry (c, d)) = [sig']" "coin sig' = PStr c"
       "mention_count (metrics sig') = PInt (int (mentions d))"
    using kept_signals_coin_entry by blast
  with x cd show ?thesis by auto
qed

lemma process_tweets_InrD:
  assumes "process_tweets results = Inr out"
  shows "results \<noteq> []"
    and "total_tweets out = length results"
    and "crypto_mentions out = calculate_averages (count_mentions results)"
    and "trading_signals out =
           generate_signals_batch default_thresholds (coin_data_list (crypto_mentions out))"
  using assms by (auto simp: process_tweets_def py_truediv_def Let_def split: if_splits)

text \<open>
  Claim C4, as the code behaves: for an empty list \<^verbatim>\<open>results\<close> the quotient
  \<^verbatim>\<open>sum(...) / len(results)\<close> raises ZeroDivisionError, which \<^verbatim>\<open>process_tweets\<close>
  re-raises; no output with \<^verbatim>\<open>total_tweets = 0\<close> is produced.
\<close>

theorem process_tweets_empty_raises: "process_tweets [] = Inl ZeroDivisionError"
  by (simp add: process_tweets_def py_truediv_def)

text \<open>
  Claim C5. In every output of \<^verbatim>\<open>process_tweets\<close> the keys of the per-asset mapping are
  distinct, and the coins of the trading signals are, as a multiset, the keys with at
  least 5 mentions (5 is also the default \<^verbatim>\<open>MIN_MENTIONS\<close>): no two signals share a coin,
  every signal belongs to an asset of the mapping with at least 5 mentions and carries
  that mention count, and an asset with fewer than 5 mentions has no signal.
\<close>

theorem trading_signals_meet_min_mentions:
  "(\<forall>results out.
      process_tweets results = Inr out \<longrightarrow>
      distinct (map fst (crypto_mentions out)) \<and>
      mset (map coin (trading_signals out))
        = mset (map (PStr \<circ> fst) (filter (\<lambda>(coin_name, data). mentions data \<ge> 5) (crypto_mentions out))) \<and>
      distinct (map coin (trading_signals out)) \<and>
      (\<forall>sig \<in> set (trading_signals out).
         \<exists>coin_name data. (coin_name, data) \<in> set (crypto_mentions out) \<and> coin sig = PStr coin_name \<and>
           mentions data \<ge> 5 \<and> mention_count (metrics sig) = PInt (int (mentions data))) \<and>
      (\<forall>coin_name data. (coin_name, data) \<in> set (crypto_mentions out) \<and> mentions data < 5 \<longrightarrow>
         PStr coin_name \<notin> coin ` set (trading_signals out))) \<and>
   MIN_MENTIONS default_thresholds = PInt 5"
proof -
  have main: "distinct (map fst (crypto_mentions out)) \<and>
      mset (map coin (trading_signals out))
        = mset (map (PStr \<circ> fst) (filter (\<lambda>(coin_name, data). mentions data \<ge> 5) (crypto_mentions out))) \<and>
      distinct (map coin (trading_signals out)) \<and>
      (\<forall>sig \<in> set (trading_signals out).
         \<exists>coin_name data. (coin_name, data) \<in> set (crypto_mentions out) \<and> coin sig = PStr coin_name \<and>
           mentions data \<ge> 5 \<and> mention_count (metrics sig) = PInt (int (mentions data))) \<and>
      (\<forall>coin_name data. (coin_name, data) \<in> set (crypto_mentions out) \<and> mentions data < 5 \<longrightarrow>
         PStr coin_name \<notin> coin ` set (trading_signals out))"
    if out: "process_tweets results = Inr out" for results out
  proof -
    let ?cm = "crypto_mentions out"
    let ?sel = "filter (\<lambda>(coin_name, data). mentions data \<ge> 5) ?cm"
    let ?ts = "trading_signals out"
    have d: "distinct (map fst ?cm)"
      by (simp add: process_tweets_InrD(3)[OF out] calculate_averages_keys count_mentions_distinct)
    have ts: "?ts = generate_signals_batch default_thresholds (map coin_entry ?sel)"
      using process_tweets_InrD(4)[OF out] by (simp add: coin_data_list_def)
    have ms: "mset ?ts = mset (concat (map (kept_signals default_thresholds) (map coin_entry ?sel)))"
      unfolding ts by (rule batch_mset)
    have m: "mset (map coin ?ts) = mset (map (PStr \<circ> fst) ?sel)"
    proof -
      have "mset (map coin ?ts) = image_mset coin (mset ?ts)"
        by (rule mset_map)
      also have "\<dots> = image_mset coin
          (mset (concat (map (kept_signals default_thresholds) (map coin_entry ?sel))))"
        by (simp only: ms)
      also have "\<dots> = mset (map coin
          (concat (map (kept_signals default_thresholds) (map coin_entry ?sel))))"
        by (rule mset_map[symmetric])
      also have "\<dots> = mset (map (PStr \<circ> fst) ?sel)"
        by (simp only: batch_coins)
      finally show ?thesis .
    qed
    have dsel: "distinct (map fst ?sel)"
      using d by (simp add: distinct_map_filter)
    have "distinct (map PStr (map fst ?sel))"
    proof (rule iffD2[OF distinct_map], intro conjI)
      show "distinct (map fst ?sel)" by (rule dsel)
      show "inj_on PStr (set (map fst ?sel))" by (simp add: inj_on_def)
    qed
    then have "distinct (map (PStr \<circ> fst) ?sel)"
      by (simp only: map_map)
    then have dts: "distinct (map coin ?ts)"
      using m by (metis mset_eq_imp_distinct_iff)
    have mem: "\<exists>coin_name data. (coin_name, data) \<in> set ?cm \<and> coin sig = PStr coin_name \<and>
           mentions data \<ge> 5 \<and> mention_count (metrics sig) = PInt (int (mentions data))"
      if "sig \<in> set ?ts" for sig
    proof -
      have "sig \<in> set (concat (map (kept_signals default_thresholds) (map coin_entry ?sel)))"
        using that ms by (metis set_mset_mset)
      from batch_members[OF this] show ?thesis by auto
    qed
    have excl: "PStr coin_name \<notin> coin ` set ?ts"
      if "(coin_name, data) \<in> set ?cm \<and> mentions data < 5" for coin_name data
    proof
      assume "PStr coin_name \<in> coin ` set ?ts"
      then obtain sig where "sig \<in> set ?ts" "coin sig = PStr coin_name" by auto
      with mem obtain data' where d': "(coin_name, data') \<in> set ?cm" "mentions data' \<ge> 5"
        by fastforce
      have "data' = data"
        using d d' that by (meson eq_key_imp_eq_value)
      with d' that show False by simp
    qed
    show ?thesis using d m dts mem excl by blast
  qed
  have "MIN_MENTIONS default_thresholds = PInt 5" by (simp add: default_thresholds_def)
  with main show ?thesis by blast
qed

theorem trading_signals_meet_min_mentions_witness:
  "\<exists>out. process_tweets
       [\<lparr>result_compound = 0.5, result_crypto_mentions = [''btc'', ''eth''], result_engagement_score = 0\<rparr>,
        \<lparr>result_compound = 0.5, result_crypto_mentions = [''btc'', ''eth''], result_engagement_score = 0\<rparr>,
        \<lparr>result_compound = 0.5, result_crypto_mentions = [''btc'', ''eth''], result_engagement_score = 0\<rparr>,
        \<lparr>result_compound = 0.5, result_crypto_mentions = [''btc''], result_engagement_score = 0\<rparr>,
        \<lparr>result_compound = 0.5, result_crypto_mentions = [''btc''], result_engagement_score = 0\<rparr>]
       = Inr out \<and>
     total_tweets out = 5 \<and>
     crypto_mentions out =
       [(''btc'', \<lparr>mentions = 5, avg_sentiment = 0.5, total_engagement = 0\<rparr>),
        (''eth'', \<lparr>mentions = 3, avg_sentiment = 0.5, total_engagement = 0\<rparr>)] \<and>
     map coin (trading_signals out) = [PStr ''btc''] \<and>
     PStr ''eth'' \<notin> coin ` set (trading_signals out)"
proof -
  let ?R = "[\<lparr>result_compound = 0.5, result_crypto_mentions = [''btc'', ''eth''], result_engagement_score = 0\<rparr>,
        \<lparr>result_compound = 0.5, result_crypto_mentions = [''btc'', ''eth''], result_engagement_score = 0\<rparr>,
        \<lparr>result_compound = 0.5, result_crypto_mentions = [''btc'', ''eth''], result_engagement_score = 0\<rparr>,
        \<lparr>result_compound = 0.5, result_crypto_mentions = [''btc''], result_engagement_score = 0\<rparr>,
        \<lparr>result_compound = (0.5::real), result_crypto_mentions = [''btc''], result_engagement_score = (0::real)\<rparr>]"
  obtain out where out: "process_tweets ?R = Inr out"
    by (simp add: process_tweets_def py_truediv_def Let_def)
  have tt: "total_tweets out = 5"
    using process_tweets_InrD(2)[OF out] by simp
  have cm: "crypto_mentions out =
       [(''btc'', \<lparr>mentions = 5, avg_sentiment = 0.5, total_engagement = 0\<rparr>),
        (''eth'', \<lparr>mentions = 3, avg_sentiment = 0.5, total_engagement = 0\<rparr>)]"
    unfolding process_tweets_InrD(3)[OF out]
    by (simp add: count_mentions_def count_mention_def calculate_averages_def)
  note c5 = trading_signals_meet_min_mentions[THEN conjunct1, rule_format, OF out]
  have "mset (map coin (trading_signals out)) = {#PStr ''btc''#}"
    using c5[THEN conjunct2, THEN conjunct1] by (simp add: cm)
  then have ts: "map coin (trading_signals out) = [PStr ''btc'']"
    by (rule iffD1[OF mset_single_iff])
  have ex: "PStr ''eth'' \<notin> coin ` set (trading_signals out)"
    by (rule c5[THEN conjunct2, THEN conjunct2, THEN conjunct2, THEN conjunct2, rule_format,
                 where data = "\<lparr>mentions = 3, avg_sentiment = 0.5, total_engagement = 0\<rparr>"])
       (simp add: cm)
  show ?thesis
    by (rule exI[of _ out]) (intro conjI out tt cm ts ex)
qed

end
